theory Spec2Isabelle
  imports Main
begin

section \<open>JavaScript strings and values\<close>

text \<open>
  The content script (\<^verbatim>\<open>extension/content.js\<close>) works on strings and on the
  JSON values of an answer payload. A string is the list of its code units; the model
  covers the code units U+0000 to U+00FF, one \<^typ>\<open>char\<close> each. Numbers are left
  out of the payload type: they are IEEE doubles, whose printing is outside this
  embedding.
\<close>

definition isSpace :: "char \<Rightarrow> bool" where
  \<comment> \<open>the regular-expression class \<^verbatim>\<open>\s\<close>, which is also what \<^verbatim>\<open>trim()\<close> strips\<close>
  "isSpace c = (c \<in> set [CHR 0x09, CHR 0x0A, CHR 0x0B, CHR 0x0C, CHR 0x0D, CHR 0x20, CHR 0xA0])"

definition toLowerChar :: "char \<Rightarrow> char" where
  "toLowerChar c = (let n = (of_char c :: int) in
     if (65 \<le> n \<and> n \<le> 90) \<or> (192 \<le> n \<and> n \<le> 222 \<and> n \<noteq> 215)
     then char_of (n + 32) else c)"

definition toLowerCase :: "string \<Rightarrow> string" where
  "toLowerCase s = map toLowerChar s"

definition trim :: "string \<Rightarrow> string" where
  "trim s = rev (dropWhile isSpace (rev (dropWhile isSpace s)))"

text \<open>
  \<^verbatim>\<open>s.replace(/C+/g, " ")\<close> for a character class \<open>C\<close>: every maximal run of
  characters of the class becomes one space. The flag says whether the scan is inside a run.
\<close>

fun replaceRuns :: "(char \<Rightarrow> bool) \<Rightarrow> bool \<Rightarrow> string \<Rightarrow> string" where
  "replaceRuns cls inRun [] = []"
| "replaceRuns cls inRun (c # cs) =
     (if cls c then (if inRun then replaceRuns cls True cs else CHR 0x20 # replaceRuns cls True cs)
      else c # replaceRuns cls False cs)"

definition isLowerAlnum :: "char \<Rightarrow> bool" where
  \<comment> \<open>the class \<^verbatim>\<open>[a-z0-9]\<close>\<close>
  "isLowerAlnum c = (let n = (of_char c :: int) in (97 \<le> n \<and> n \<le> 122) \<or> (48 \<le> n \<and> n \<le> 57))"

definition startsUpper :: "string \<Rightarrow> bool" where
  \<comment> \<open>\<^verbatim>\<open>/^[A-Z]/.test(s)\<close>\<close>
  "startsUpper s = (case s of [] \<Rightarrow> False
     | c # _ \<Rightarrow> (let n = (of_char c :: int) in 65 \<le> n \<and> n \<le> 90))"

fun isPrefixOf :: "string \<Rightarrow> string \<Rightarrow> bool" where
  "isPrefixOf [] ys = True"
| "isPrefixOf (x # xs) [] = False"
| "isPrefixOf (x # xs) (y # ys) = (x = y \<and> isPrefixOf xs ys)"

fun includesStr :: "string \<Rightarrow> string \<Rightarrow> bool" where
  \<comment> \<open>\<^verbatim>\<open>s.includes(t)\<close>\<close>
  "includesStr [] t = (t = [])"
| "includesStr (c # cs) t = (isPrefixOf t (c # cs) \<or> includesStr cs t)"

fun join :: "string \<Rightarrow> string list \<Rightarrow> string" where
  "join sep [] = []"
| "join sep [s] = s"
| "join sep (s # t # ss) = s @ sep @ join sep (t # ss)"

fun digitsOf :: "nat \<Rightarrow> string" where
  \<comment> \<open>the decimal numeral of an array index\<close>
  "digitsOf n = (if n < 10 then [char_of (48 + n)]
                 else digitsOf (n div 10) @ [char_of (48 + n mod 10)])"

datatype json =
    JNull
  | JBool bool
  | JStr string
  | JArr "json list"
  | JObj "(string \<times> json) list"

text \<open>
  \<open>JObj kvs\<close> lists the own properties of an object in the order of
  \<^verbatim>\<open>Object.entries\<close>, each key once. A JavaScript value is a JSON value or
  \<^verbatim>\<open>undefined\<close>, which is \<open>None\<close>.
\<close>

type_synonym jsval = "json option"

fun truthy :: "jsval \<Rightarrow> bool" where
  "truthy None = False"
| "truthy (Some JNull) = False"
| "truthy (Some (JBool b)) = b"
| "truthy (Some (JStr s)) = (s \<noteq> [])"
| "truthy (Some (JArr xs)) = True"
| "truthy (Some (JObj kvs)) = True"

fun toStr :: "json \<Rightarrow> string" where
  \<comment> \<open>\<^verbatim>\<open>String(v)\<close>\<close>
  "toStr JNull = ''null''"
| "toStr (JBool b) = (if b then ''true'' else ''false'')"
| "toStr (JStr s) = s"
| "toStr (JArr xs) = join '','' (map (\<lambda>x. if x = JNull then [] else toStr x) xs)"
| "toStr (JObj kvs) = ''[object Object]''"

definition toStrV :: "jsval \<Rightarrow> string" where
  "toStrV v = (case v of None \<Rightarrow> ''undefined'' | Some j \<Rightarrow> toStr j)"

definition getProp :: "jsval \<Rightarrow> string \<Rightarrow> jsval" where
  \<comment> \<open>\<^verbatim>\<open>v.k\<close> for the property names the script reads, none of which a string, a boolean
      or an array has\<close>
  "getProp v k = (case v of Some (JObj kvs) \<Rightarrow> map_of kvs k | _ \<Rightarrow> None)"

definition orElse :: "jsval \<Rightarrow> jsval \<Rightarrow> jsval" where
  \<comment> \<open>\<^verbatim>\<open>a || b\<close>\<close>
  "orElse a b = (if truthy a then a else b)"

definition nullish :: "jsval \<Rightarrow> jsval \<Rightarrow> jsval" where
  \<comment> \<open>\<^verbatim>\<open>a ?? b\<close>\<close>
  "nullish a b = (if a = None \<or> a = Some JNull then b else a)"

definition isObject :: "jsval \<Rightarrow> bool" where
  \<comment> \<open>\<^verbatim>\<open>v && typeof v === 'object'\<close>\<close>
  "isObject v = (case v of Some (JArr xs) \<Rightarrow> True | Some (JObj kvs) \<Rightarrow> True | _ \<Rightarrow> False)"

definition entries :: "json \<Rightarrow> (string \<times> json) list" where
  \<comment> \<open>\<^verbatim>\<open>Object.entries(v)\<close> of an object or an array\<close>
  "entries v = (case v of JObj kvs \<Rightarrow> kvs
     | JArr xs \<Rightarrow> zip (map digitsOf [0..<length xs]) xs
     | _ \<Rightarrow> [])"

definition hexDigit :: "int \<Rightarrow> char" where
  "hexDigit n = (if n < 10 then char_of (48 + n) else char_of (87 + n))"

definition escapeChar :: "char \<Rightarrow> string" where
  "escapeChar c = (let n = (of_char c :: int) in
     if n = 34 then [CHR 0x5C, CHR 0x22]
     else if n = 92 then [CHR 0x5C, CHR 0x5C]
     else if n = 8 then [CHR 0x5C, CHR ''b'']
     else if n = 12 then [CHR 0x5C, CHR ''f'']
     else if n = 10 then [CHR 0x5C, CHR ''n'']
     else if n = 13 then [CHR 0x5C, CHR ''r'']
     else if n = 9 then [CHR 0x5C, CHR ''t'']
     else if n < 32 then [CHR 0x5C, CHR ''u'', CHR ''0'', CHR ''0'', hexDigit (n div 16), hexDigit (n mod 16)]
     else [c])"

definition quote :: "string \<Rightarrow> string" where
  "quote s = [CHR 0x22] @ concat (map escapeChar s) @ [CHR 0x22]"

fun stringify :: "json \<Rightarrow> string" where
  \<comment> \<open>\<^verbatim>\<open>JSON.stringify(v)\<close>\<close>
  "stringify JNull = ''null''"
| "stringify (JBool b) = (if b then ''true'' else ''false'')"
| "stringify (JStr s) = quote s"
| "stringify (JArr xs) = ''['' @ join '','' (map stringify xs) @ '']''"
| "stringify (JObj kvs) =
     ''{'' @ join '','' (map (\<lambda>kv. quote (fst kv) @ '':'' @ stringify (snd kv)) kvs) @ ''}''"

subsection \<open>normalizeKey and keepPunctLower\<close>

text \<open>
  \<^verbatim>\<open>normalizeKey(s)\<close> is called on strings, on attribute values (a string or
  \<^verbatim>\<open>null\<close>) and on payload values; it returns the empty string for every falsy
  argument. The three definitions are the one source function at these argument types.
\<close>

definition normalizeKey :: "string \<Rightarrow> string" where
  "normalizeKey s = (if s = [] then []
     else trim (replaceRuns isSpace False
            (replaceRuns (\<lambda>c. \<not> isLowerAlnum c) False (toLowerCase s))))"

definition normalizeKeyA :: "string option \<Rightarrow> string" where
  "normalizeKeyA a = (case a of None \<Rightarrow> [] | Some s \<Rightarrow> normalizeKey s)"

definition normalizeKeyV :: "jsval \<Rightarrow> string" where
  "normalizeKeyV v = (if truthy v then normalizeKey (toStrV v) else [])"

definition keepPunctLower :: "string \<Rightarrow> string" where
  \<comment> \<open>\<^verbatim>\<open>String(s || '').toLowerCase().replace(/\s+/g, ' ').trim()\<close>\<close>
  "keepPunctLower s = trim (replaceRuns isSpace False (toLowerCase s))"

definition keepPunctLowerV :: "json \<Rightarrow> string" where
  "keepPunctLowerV v = keepPunctLower (if truthy (Some v) then toStr v else [])"

section \<open>The document\<close>

text \<open>
  Elements are objects of a store, addressed by their identity. An element carries what
  the script reads from it and from the tree around it: its tag name in lower case, its
  attributes, its chain of ancestors (nearest first), its rendered text, the two
  properties the script writes (\<^verbatim>\<open>value\<close>, \<^verbatim>\<open>textContent\<close>), the
  \<^verbatim>\<open>checked\<close> flag, the properties \<^verbatim>\<open>el.id\<close> and \<^verbatim>\<open>el.name\<close> (empty
  where the element has none), and the results of the two label heuristics
  \<^verbatim>\<open>getLabelForElement(el)\<close> and \<^verbatim>\<open>deriveGroupQuestionFromElement(el)\<close>, which
  read text and attributes that a fill operation never writes before it reads them.
  \<open>valueProp\<close> holds the string last assigned to \<^verbatim>\<open>el.value\<close>; what the host makes
  of it for a given input type (value sanitization) is not modelled.
  The page lists the attached elements in tree order, names the focused element, and
  records every write, every dispatched event and every request to the answer provider
  in the order in which the script performs them. Only the script writes: what listeners
  of the page do on a dispatched event, and the unchecking that the host itself performs
  among radio inputs of one name, are outside the model.
\<close>

type_synonym eid = nat

record element =
  tagName :: string
  idProp :: string
  nameProp :: string
  attrs :: "string \<rightharpoonup> string"
  ancestors :: "eid list"
  innerText :: string
  labelForElement :: string
  groupQuestion :: string
  valueProp :: string
  textContent :: string
  checked :: bool

datatype strategy = SelectionScoped | ViewportScoped

datatype request =
    CallAiChoicesForSelection strategy
  | CallAiFocused
  | CallAi

datatype action =
    SetAttribute eid string string
  | SetValue eid string
  | SetTextContent eid string
  | SetChecked eid bool
  | DispatchEvent eid string
  | Click eid
  | Submit eid
  | SendMessage request

record page =
  els :: "eid \<Rightarrow> element"
  docOrder :: "eid list"
  activeElement :: "eid option"
  trace :: "action list"

definition getAttribute :: "page \<Rightarrow> eid \<Rightarrow> string \<Rightarrow> string option" where
  "getAttribute p e a = attrs (els p e) a"

definition hasAttribute :: "page \<Rightarrow> eid \<Rightarrow> string \<Rightarrow> bool" where
  "hasAttribute p e a = (attrs (els p e) a \<noteq> None)"

definition attrOrEmpty :: "page \<Rightarrow> eid \<Rightarrow> string \<Rightarrow> string" where
  \<comment> \<open>\<^verbatim>\<open>el.getAttribute(a) || ''\<close>\<close>
  "attrOrEmpty p e a = (case getAttribute p e a of None \<Rightarrow> [] | Some s \<Rightarrow> s)"

definition setAttribute :: "eid \<Rightarrow> string \<Rightarrow> string \<Rightarrow> page \<Rightarrow> page" where
  "setAttribute e a v p =
     p\<lparr>els := (els p)(e := (els p e)\<lparr>attrs := (attrs (els p e))(a \<mapsto> v)\<rparr>),
       trace := trace p @ [SetAttribute e a v]\<rparr>"

definition setValue :: "eid \<Rightarrow> string \<Rightarrow> page \<Rightarrow> page" where
  "setValue e v p =
     p\<lparr>els := (els p)(e := (els p e)\<lparr>valueProp := v\<rparr>), trace := trace p @ [SetValue e v]\<rparr>"

definition setTextContent :: "eid \<Rightarrow> string \<Rightarrow> page \<Rightarrow> page" where
  "setTextContent e v p =
     p\<lparr>els := (els p)(e := (els p e)\<lparr>textContent := v\<rparr>),
       trace := trace p @ [SetTextContent e v]\<rparr>"

definition setChecked :: "eid \<Rightarrow> bool \<Rightarrow> page \<Rightarrow> page" where
  "setChecked e b p =
     p\<lparr>els := (els p)(e := (els p e)\<lparr>checked := b\<rparr>), trace := trace p @ [SetChecked e b]\<rparr>"

definition dispatchEvent :: "eid \<Rightarrow> string \<Rightarrow> page \<Rightarrow> page" where
  "dispatchEvent e ty p = p\<lparr>trace := trace p @ [DispatchEvent e ty]\<rparr>"

definition closest :: "page \<Rightarrow> (element \<Rightarrow> bool) \<Rightarrow> eid \<Rightarrow> eid option" where
  \<comment> \<open>\<^verbatim>\<open>el.closest(sel)\<close>: the element itself or its nearest ancestor matching\<close>
  "closest p sel e = find (\<lambda>x. sel (els p x)) (e # ancestors (els p e))"

definition parentElement :: "page \<Rightarrow> eid \<Rightarrow> eid option" where
  "parentElement p e = (case ancestors (els p e) of [] \<Rightarrow> None | a # _ \<Rightarrow> Some a)"

definition querySelectorAll :: "page \<Rightarrow> (element \<Rightarrow> bool) \<Rightarrow> eid list" where
  \<comment> \<open>\<^verbatim>\<open>document.querySelectorAll(sel)\<close>\<close>
  "querySelectorAll p sel = filter (\<lambda>x. sel (els p x)) (docOrder p)"

definition querySelectorAllIn :: "page \<Rightarrow> eid \<Rightarrow> (element \<Rightarrow> bool) \<Rightarrow> eid list" where
  \<comment> \<open>\<^verbatim>\<open>c.querySelectorAll(sel)\<close>: the matching descendants of \<open>c\<close>\<close>
  "querySelectorAllIn p c sel =
     filter (\<lambda>x. c \<in> set (ancestors (els p x)) \<and> sel (els p x)) (docOrder p)"

text \<open>The selectors of the fill path, as predicates on elements. Attribute selectors on
  \<^verbatim>\<open>type\<close> compare without regard to case, the others exactly.\<close>

definition isTag :: "string \<Rightarrow> element \<Rightarrow> bool" where
  "isTag t el = (tagName el = t)"

definition typeIs :: "string \<Rightarrow> element \<Rightarrow> bool" where
  "typeIs t el = (case attrs el ''type'' of None \<Rightarrow> False | Some v \<Rightarrow> toLowerCase v = t)"

definition isRadiogroup :: "element \<Rightarrow> bool" where
  \<comment> \<open>\<^verbatim>\<open>[role='radiogroup']\<close>\<close>
  "isRadiogroup el = (attrs el ''role'' = Some ''radiogroup'')"

definition isRoleRadio :: "element \<Rightarrow> bool" where
  \<comment> \<open>\<^verbatim>\<open>[role='radio']\<close>\<close>
  "isRoleRadio el = (attrs el ''role'' = Some ''radio'')"

definition isNamedRadio :: "string \<Rightarrow> element \<Rightarrow> bool" where
  \<comment> \<open>\<^verbatim>\<open>input[type='radio'][name='N']\<close>\<close>
  "isNamedRadio n el = (isTag ''input'' el \<and> typeIs ''radio'' el \<and> attrs el ''name'' = Some n)"

definition isTagged :: "element \<Rightarrow> bool" where
  \<comment> \<open>\<^verbatim>\<open>[data-autoanswer-id]\<close>\<close>
  "isTagged el = (attrs el ''data-autoanswer-id'' \<noteq> None)"

section \<open>The field index\<close>

record opt =
  optEl :: eid
  optLabel :: string
  optId :: string

record choiceGroup =
  gType :: string
  gQuestion :: string
  gOptions :: "opt list"

record fieldIndex =
  byId :: "string \<rightharpoonup> eid"
  byLabel :: "string \<rightharpoonup> eid"
  byName :: "string \<rightharpoonup> eid"
  byHtmlId :: "string \<rightharpoonup> eid"
  byPlaceholder :: "string \<rightharpoonup> eid"
  byGroup :: "string \<rightharpoonup> choiceGroup"
  byGroupQuestion :: "string \<rightharpoonup> string"

definition emptyIndex :: fieldIndex where
  "emptyIndex = \<lparr>byId = Map.empty, byLabel = Map.empty, byName = Map.empty,
     byHtmlId = Map.empty, byPlaceholder = Map.empty, byGroup = Map.empty,
     byGroupQuestion = Map.empty\<rparr>"

definition setIfFree :: "string \<Rightarrow> 'a \<Rightarrow> (string \<rightharpoonup> 'a) \<Rightarrow> (string \<rightharpoonup> 'a)" where
  \<comment> \<open>\<^verbatim>\<open>if (k && !m.has(k)) m.set(k, v)\<close>\<close>
  "setIfFree k v m = (if k \<noteq> [] \<and> m k = None then m(k \<mapsto> v) else m)"

text \<open>One turn of the loop of \<^verbatim>\<open>buildFieldIndex\<close>, for the tagged element \<open>e\<close>, in
  three parts: the five lookup maps, the label attribute written onto the element, and
  the group entry.\<close>

definition registerField :: "page \<Rightarrow> eid \<Rightarrow> fieldIndex \<Rightarrow> fieldIndex" where
  "registerField p e idx =
    (let fieldId = attrOrEmpty p e ''data-autoanswer-id'';
         idx1 = (if fieldId \<noteq> [] then idx\<lparr>byId := (byId idx)(fieldId \<mapsto> e)\<rparr> else idx);
         label = normalizeKey (labelForElement (els p e));
         idx2 = idx1\<lparr>byLabel := setIfFree label e (byLabel idx1)\<rparr>;
         idx3 = idx2\<lparr>byName := setIfFree (normalizeKeyA (getAttribute p e ''name'')) e (byName idx2)\<rparr>;
         idx4 = idx3\<lparr>byHtmlId := setIfFree (normalizeKeyA (getAttribute p e ''id'')) e (byHtmlId idx3)\<rparr>
     in idx4\<lparr>byPlaceholder :=
              setIfFree (normalizeKeyA (getAttribute p e ''placeholder'')) e (byPlaceholder idx4)\<rparr>)"

definition labelElement :: "eid \<Rightarrow> page \<Rightarrow> page" where
  \<comment> \<open>\<^verbatim>\<open>if (label) el.setAttribute("data-autoanswer-label", label)\<close>\<close>
  "labelElement e p =
    (let label = normalizeKey (labelForElement (els p e))
     in if label \<noteq> [] then setAttribute e ''data-autoanswer-label'' label p else p)"

definition registerOption :: "page \<Rightarrow> eid \<Rightarrow> fieldIndex \<Rightarrow> fieldIndex" where
  "registerOption p e idx =
    (let fieldId = attrOrEmpty p e ''data-autoanswer-id'';
         groupId = attrOrEmpty p e ''data-autoanswer-group''
     in if groupId = [] then idx
        else
          (let idx1 =
                 (if byGroup idx groupId = None
                  then (let ty = toLowerCase (attrOrEmpty p e ''type'');
                            question = groupQuestion (els p e);
                            qNorm = normalizeKey question
                        in idx\<lparr>byGroup := (byGroup idx)(groupId \<mapsto>
                                    \<lparr>gType = ty, gQuestion = question, gOptions = []\<rparr>),
                                 byGroupQuestion := setIfFree qNorm groupId (byGroupQuestion idx)\<rparr>)
                  else idx)
           in case byGroup idx1 groupId of
                None \<Rightarrow> idx1
              | Some g \<Rightarrow>
                  idx1\<lparr>byGroup := (byGroup idx1)(groupId \<mapsto>
                     g\<lparr>gOptions := gOptions g @
                        [\<lparr>optEl = e, optLabel = labelForElement (els p e), optId = fieldId\<rparr>]\<rparr>)\<rparr>))"

definition indexElement :: "eid \<Rightarrow> fieldIndex \<times> page \<Rightarrow> fieldIndex \<times> page" where
  "indexElement e st =
    (let p1 = labelElement e (snd st)
     in (registerOption p1 e (registerField (snd st) e (fst st)), p1))"

fun indexElements :: "eid list \<Rightarrow> fieldIndex \<times> page \<Rightarrow> fieldIndex \<times> page" where
  "indexElements [] st = st"
| "indexElements (e # es) st = indexElements es (indexElement e st)"

definition buildFieldIndex :: "page \<Rightarrow> fieldIndex \<times> page" where
  "buildFieldIndex p = indexElements (querySelectorAll p isTagged) (emptyIndex, p)"

section \<open>The option matcher selectBy\<close>

definition aroundText :: "page \<Rightarrow> eid \<Rightarrow> string" where
  \<comment> \<open>\<^verbatim>\<open>(labelNode?.innerText || o.el.parentElement?.innerText || '').trim()\<close>\<close>
  "aroundText p e =
     trim (let l = (case closest p (isTag ''label'') e of None \<Rightarrow> []
                    | Some n \<Rightarrow> innerText (els p n))
           in if l \<noteq> [] then l
              else (case parentElement p e of None \<Rightarrow> [] | Some q \<Rightarrow> innerText (els p q)))"

definition scoreOf :: "page \<Rightarrow> string \<Rightarrow> string \<Rightarrow> string \<Rightarrow> opt \<Rightarrow> int" where
  "scoreOf p exact rawLower norm c =
    (let labelLower = keepPunctLower (optLabel c);
         lNorm = normalizeKey (optLabel c);
         around = aroundText p (optEl c);
         aroundLower = keepPunctLower around;
         aroundNorm = normalizeKey around
     in if labelLower = rawLower then 90
        else if labelLower \<noteq> [] \<and> (includesStr labelLower rawLower \<or> includesStr rawLower labelLower)
          then 80
        else if around = exact then 78
        else if aroundLower = rawLower then 75
        else if lNorm = norm then 60
        else if lNorm \<noteq> [] \<and> (includesStr lNorm norm \<or> includesStr norm lNorm) then 50
        else if aroundNorm \<noteq> [] \<and> (includesStr aroundNorm norm \<or> includesStr norm aroundNorm)
          then 40
        else 0)"

definition exactHit :: "json \<Rightarrow> string \<Rightarrow> opt \<Rightarrow> bool" where
  \<comment> \<open>\<^verbatim>\<open>o.id === val\<close> or \<^verbatim>\<open>(o.label || '').trim() === exact\<close>\<close>
  "exactHit val exact c = (val = JStr (optId c) \<or> trim (optLabel c) = exact)"

text \<open>The scoring loop, with the running \<^verbatim>\<open>best\<close> and \<^verbatim>\<open>bestScore\<close>.\<close>

fun selectLoop ::
  "page \<Rightarrow> json \<Rightarrow> string \<Rightarrow> string \<Rightarrow> string \<Rightarrow> opt list \<Rightarrow> opt option \<Rightarrow> int \<Rightarrow> opt option"
where
  "selectLoop p val exact rawLower norm [] best bestScore = best"
| "selectLoop p val exact rawLower norm (c # cs) best bestScore =
     (if val = JStr (optId c) then Some c
      else if trim (optLabel c) = exact then Some c
      else (let score = scoreOf p exact rawLower norm c
            in if score > bestScore then selectLoop p val exact rawLower norm cs (Some c) score
               else selectLoop p val exact rawLower norm cs best bestScore))"

definition csCandidates :: "opt list \<Rightarrow> string \<Rightarrow> opt list" where
  "csCandidates options rawLower = filter (\<lambda>c. keepPunctLower (optLabel c) = rawLower) options"

definition tieBreak :: "opt list \<Rightarrow> string \<Rightarrow> string \<Rightarrow> opt option" where
  "tieBreak options exact rawLower =
     (let cands = csCandidates options rawLower
      in if length cands \<ge> 2
         then (case find (\<lambda>c. trim (optLabel c) = exact) cands of
                 Some c \<Rightarrow> Some c
               | None \<Rightarrow> find (\<lambda>c. startsUpper (trim (optLabel c))) cands)
         else None)"

definition selectBy :: "page \<Rightarrow> opt list \<Rightarrow> json \<Rightarrow> opt option" where
  "selectBy p options val =
     (if val = JNull then None
      else (let exact = trim (toStr val);
                rawLower = keepPunctLowerV val;
                norm = normalizeKeyV (Some val)
            in case tieBreak options exact rawLower of
                 Some c \<Rightarrow> Some c
               | None \<Rightarrow> selectLoop p val exact rawLower norm options None (- 1)))"

text \<open>The three parts of the tie-break for a value, named as in the source: whether at
  least two labels equal the value without regard to case, the first of them with the
  exact case, the first of them that starts with a capital letter.\<close>

definition tied :: "opt list \<Rightarrow> json \<Rightarrow> bool" where
  \<comment> \<open>\<^verbatim>\<open>csCandidates.length >= 2\<close>\<close>
  "tied options val = (length (csCandidates options (keepPunctLowerV val)) \<ge> 2)"

definition exactCase :: "opt list \<Rightarrow> json \<Rightarrow> opt option" where
  "exactCase options val =
     find (\<lambda>c. trim (optLabel c) = trim (toStr val)) (csCandidates options (keepPunctLowerV val))"

definition capitalized :: "opt list \<Rightarrow> json \<Rightarrow> opt option" where
  "capitalized options val =
     find (\<lambda>c. startsUpper (trim (optLabel c))) (csCandidates options (keepPunctLowerV val))"

definition tierScore :: "page \<Rightarrow> json \<Rightarrow> opt \<Rightarrow> int" where
  \<comment> \<open>the score that the loop of \<open>selectBy\<close> computes for an option and a value\<close>
  "tierScore p val c = scoreOf p (trim (toStr val)) (keepPunctLowerV val) (normalizeKeyV (Some val)) c"

section \<open>The document mutator\<close>

text \<open>
  \<^verbatim>\<open>fillAnswers\<close> and the two mutators have no \<^verbatim>\<open>throw\<close> of their own; an exception
  there comes from the host: from \<^verbatim>\<open>document.querySelector\<close> on a selector string
  taken from the payload, from the value setter of \<^verbatim>\<open><input type=file>\<close>, which raises
  \<^verbatim>\<open>InvalidStateError\<close> on any string but the empty one and writes nothing, or from
  the host while the checked state of an element is changed, which the model places at
  the write that marks the target, after its siblings are cleared. The strategies of the
  orchestrator raise \<^verbatim>\<open>new Error(message)\<close> on a response that is not \<^verbatim>\<open>ok\<close>, and a
  request to the provider may itself be rejected. An exception is a value; a computation
  that may raise returns its outcome together with the page as the exception left it,
  since no write is rolled back. \<open>errString\<close> is \<^verbatim>\<open>String(err)\<close>: for an
  \<^verbatim>\<open>Error\<close> the name \<^verbatim>\<open>Error\<close>, followed by a colon and the message where the
  message is not empty; an exception of the host carries the text that \<^verbatim>\<open>String\<close> yields
  for it.
\<close>

datatype jsError =
    JsError string
  | HostException string

definition errString :: "jsError \<Rightarrow> string" where
  "errString e =
     (case e of
        JsError m \<Rightarrow> (if m = [] then ''Error'' else ''Error: '' @ m)
      | HostException s \<Rightarrow> s)"

datatype 'a result = Threw jsError | Returned 'a

datatype scan = Scan "(eid \<times> string \<times> string) list" "jsError option"

text \<open>
  What the host and the collaborators outside the fill path contribute: the selector
  engine, the stored \<^verbatim>\<open>autoSubmit\<close> setting, the elements on which a change of the
  checked state raises, the provider's reply to each request (a response value, or a
  rejection), and the discovery passes, which write tagging attributes and may raise.
  \<open>scanSelection\<close> is the selection analysis of \<^verbatim>\<open>fillSelectionChoicesIfAny\<close>
  (\<open>None\<close> where it returns early), \<open>collectSchema\<close> the pass of that name, and
  \<open>viewportGroup\<close> says whether the viewport strategy finds a visible group after it.
\<close>

record host =
  querySelectorHost :: "page \<Rightarrow> string \<Rightarrow> jsError + eid option"
  autoSubmit :: bool
  checkedStateRaises :: "eid \<Rightarrow> jsError option"
  sendMessage :: "request \<Rightarrow> page \<Rightarrow> jsError + jsval"
  scanSelection :: "page \<Rightarrow> scan option"
  collectSchema :: "page \<Rightarrow> scan"
  viewportGroup :: "page \<Rightarrow> bool"

definition valueString :: "jsval \<Rightarrow> string option" where
  \<comment> \<open>\<^verbatim>\<open>typeof value === "string" ? value : JSON.stringify(value)\<close>\<close>
  "valueString v = (case v of None \<Rightarrow> None | Some (JStr s) \<Rightarrow> Some s | Some j \<Rightarrow> Some (stringify j))"

definition assigned :: "jsval \<Rightarrow> string" where
  \<comment> \<open>what \<^verbatim>\<open>el.value = v\<close> stores: the string, and \<^verbatim>\<open>"undefined"\<close> where
      \<^verbatim>\<open>JSON.stringify\<close> has returned \<^verbatim>\<open>undefined\<close>\<close>
  "assigned v = (case valueString v of None \<Rightarrow> ''undefined'' | Some s \<Rightarrow> s)"

definition valueRaises :: "page \<Rightarrow> eid \<Rightarrow> string \<Rightarrow> bool" where
  \<comment> \<open>the value setter of the host: on \<^verbatim>\<open><input type=file>\<close> any string but the empty
      one raises \<^verbatim>\<open>InvalidStateError\<close>, and nothing is written\<close>
  "valueRaises p e s = (isTag ''input'' (els p e) \<and> typeIs ''file'' (els p e) \<and> s \<noteq> [])"

definition invalidState :: jsError where
  "invalidState = HostException ''InvalidStateError''"

definition setElementValue :: "eid \<Rightarrow> jsval \<Rightarrow> bool \<Rightarrow> page \<Rightarrow> unit result \<times> page" where
  "setElementValue e v suppressSubmit p =
    (let tag = tagName (els p e)
     in if tag = ''textarea'' \<or> tag = ''input''
        then (if valueRaises p e (assigned v) then (Threw invalidState, p)
              else (let p1 = setValue e (assigned v) p;
                        p2 = dispatchEvent e ''input'' p1
                    in (Returned (),
                        if \<not> suppressSubmit then dispatchEvent e ''change'' p2 else p2)))
        else if hasAttribute p e ''contenteditable''
        then (Returned (),
              dispatchEvent e ''input''
                (setTextContent e (case valueString v of None \<Rightarrow> [] | Some s \<Rightarrow> s) p))
        else (Returned (), p))"

definition kindOf :: "page \<Rightarrow> eid \<Rightarrow> string" where
  "kindOf p e =
    (let role = toLowerCase (attrOrEmpty p e ''role'')
     in if role = ''radio'' \<or> role = ''checkbox'' then role
        else toLowerCase (attrOrEmpty p e ''type''))"

definition uncheck :: "eid \<Rightarrow> page \<Rightarrow> page" where
  "uncheck node p =
    (if hasAttribute p node ''role'' then setAttribute node ''aria-checked'' ''false'' p
     else setChecked node False p)"

definition siblingsOf :: "page \<Rightarrow> eid \<Rightarrow> eid list option" where
  \<comment> \<open>the \<^verbatim>\<open>group\<close> of \<open>ensureChecked\<close>: by name, else by the enclosing radiogroup\<close>
  "siblingsOf p e =
    (let name = attrOrEmpty p e ''name''
     in if name \<noteq> [] then Some (querySelectorAll p (isNamedRadio name))
        else (case closest p isRadiogroup e of
                None \<Rightarrow> None
              | Some c \<Rightarrow> Some (querySelectorAllIn p c isRoleRadio)))"

fun uncheckOthers :: "eid \<Rightarrow> eid list \<Rightarrow> page \<Rightarrow> page" where
  \<comment> \<open>\<^verbatim>\<open>group.forEach((node) => { if (node !== el) ... })\<close>\<close>
  "uncheckOthers e [] p = p"
| "uncheckOthers e (node # nodes) p =
     uncheckOthers e nodes (if node \<noteq> e then uncheck node p else p)"

definition clearSiblings :: "eid \<Rightarrow> page \<Rightarrow> page" where
  "clearSiblings e p =
    (case siblingsOf p e of
       None \<Rightarrow> p
     | Some nodes \<Rightarrow> uncheckOthers e nodes p)"

definition nativeChecked :: "eid \<Rightarrow> bool \<Rightarrow> page \<Rightarrow> page" where
  \<comment> \<open>the branch of \<open>ensureChecked\<close> for an element without a role attribute\<close>
  "nativeChecked e suppressSubmit p =
    (let willChange = \<not> checked (els p e);
         p1 = setChecked e True p;
         p2 = dispatchEvent e ''input'' p1
     in if \<not> suppressSubmit
        then (if \<not> willChange then dispatchEvent e ''change'' p2
              else if \<not> suppressSubmit then dispatchEvent e ''change'' p2
              else p2)
        else p2)"

definition markChecked :: "eid \<Rightarrow> bool \<Rightarrow> page \<Rightarrow> page" where
  "markChecked e suppressSubmit p =
    (if hasAttribute p e ''role''
     then (let p1 = setAttribute e ''aria-checked'' ''true'' p
           in if \<not> suppressSubmit
              then dispatchEvent e ''change'' (dispatchEvent e ''click'' p1)
              else p1)
     else nativeChecked e suppressSubmit p)"

definition ensureChecked :: "host \<Rightarrow> eid \<Rightarrow> bool \<Rightarrow> bool \<Rightarrow> page \<Rightarrow> unit result \<times> page" where
  "ensureChecked h e isRadio suppressSubmit p =
    (let p1 = (if kindOf p e = ''radio'' \<or> isRadio then clearSiblings e p else p)
     in case checkedStateRaises h e of
          Some err \<Rightarrow> (Threw err, p1)
        | None \<Rightarrow> (Returned (), markChecked e suppressSubmit p1))"

definition nativeContract :: "eid \<Rightarrow> bool \<Rightarrow> page \<Rightarrow> page" where
  \<comment> \<open>the contract of the specification for the native branch: set the checked flag, always
      notify \<^verbatim>\<open>input\<close>, notify \<^verbatim>\<open>change\<close> unless suppressed\<close>
  "nativeContract e suppressSubmit p =
    (let p2 = dispatchEvent e ''input'' (setChecked e True p)
     in if suppressSubmit then p2 else dispatchEvent e ''change'' p2)"

definition selected :: "page \<Rightarrow> eid \<Rightarrow> bool" where
  \<comment> \<open>the checked state as \<open>ensureChecked\<close> writes it: \<^verbatim>\<open>aria-checked\<close> for an element with
      a role attribute, the \<^verbatim>\<open>checked\<close> flag otherwise\<close>
  "selected p e =
    (if hasAttribute p e ''role'' then getAttribute p e ''aria-checked'' = Some ''true''
     else checked (els p e))"

section \<open>fillAnswers\<close>

record fillResult =
  filled :: nat
  submitted :: bool

record fillState =
  filledCount :: nat
  touchedForms :: "eid list"
  doc :: page

definition addForm :: "eid option \<Rightarrow> eid list \<Rightarrow> eid list" where
  \<comment> \<open>\<^verbatim>\<open>if (form) touchedForms.add(form)\<close>, a set in insertion order\<close>
  "addForm f fs = (case f of None \<Rightarrow> fs | Some x \<Rightarrow> if x \<in> set fs then fs else fs @ [x])"

definition applyTo ::
  "bool \<Rightarrow> eid option \<Rightarrow> jsval \<Rightarrow> fillState \<Rightarrow> bool result \<times> fillState" where
  "applyTo skipSubmit el v st =
    (case el of
       None \<Rightarrow> (Returned False, st)
     | Some e \<Rightarrow>
         (case setElementValue e v skipSubmit (doc st) of
            (Threw err, p1) \<Rightarrow> (Threw err, st\<lparr>doc := p1\<rparr>)
          | (Returned u, p1) \<Rightarrow>
              (Returned True,
               st\<lparr>filledCount := filledCount st + 1,
                  touchedForms := addForm (closest p1 (isTag ''form'') e) (touchedForms st),
                  doc := p1\<rparr>)))"

definition applied :: "bool result \<times> fillState \<Rightarrow> unit result \<times> fillState" where
  \<comment> \<open>a call of \<open>applyTo\<close> whose boolean is not looked at\<close>
  "applied r = (case fst r of Threw err \<Rightarrow> (Threw err, snd r) | Returned b \<Rightarrow> (Returned (), snd r))"

definition mapGet :: "(string \<rightharpoonup> 'a) \<Rightarrow> jsval \<Rightarrow> 'a option" where
  \<comment> \<open>\<^verbatim>\<open>m.get(v)\<close> on a map whose keys are strings\<close>
  "mapGet m v = (case v of Some (JStr s) \<Rightarrow> m s | _ \<Rightarrow> None)"

text \<open>One turn of the loop over a list-shaped payload. Each attempt yields the result of
  \<^verbatim>\<open>applyTo\<close> and the state; a hit ends the turn (\<^verbatim>\<open>continue\<close>).\<close>

definition fillItem :: "host \<Rightarrow> fieldIndex \<Rightarrow> bool \<Rightarrow> json \<Rightarrow> fillState \<Rightarrow> unit result \<times> fillState" where
  "fillItem h idx skipSubmit item st =
    (if \<not> truthy (Some item) then (Returned (), st)
     else
      (let it = Some item;
           v = nullish (getProp it ''answer'') (nullish (getProp it ''value'') (getProp it ''text''));
           idKey = orElse (getProp it ''id'') (getProp it ''fieldId'');
           sel = getProp it ''selector'';
           keyLabel = normalizeKeyV (getProp it ''label'');
           keyName = normalizeKeyV (getProp it ''name'');
           keyHtmlId = normalizeKeyV (orElse (getProp it ''htmlId'') (getProp it ''idAttr''))
       in case (if truthy idKey then applyTo skipSubmit (mapGet (byId idx) idKey) v st
                else (Returned False, st)) of
            (Threw err, st1) \<Rightarrow> (Threw err, st1)
          | (Returned True, st1) \<Rightarrow> (Returned (), st1)
          | (Returned False, st1) \<Rightarrow>
           (case (if truthy sel
                  then (case querySelectorHost h (doc st1) (toStrV sel) of
                          Inl err \<Rightarrow> (Threw err, st1)
                        | Inr el \<Rightarrow> applyTo skipSubmit el v st1)
                  else (Returned False, st1)) of
              (Threw err, st2) \<Rightarrow> (Threw err, st2)
            | (Returned True, st2) \<Rightarrow> (Returned (), st2)
            | (Returned False, st2) \<Rightarrow>
             (case (if keyLabel \<noteq> [] then applyTo skipSubmit (byLabel idx keyLabel) v st2
                    else (Returned False, st2)) of
                (Threw err, st3) \<Rightarrow> (Threw err, st3)
              | (Returned True, st3) \<Rightarrow> (Returned (), st3)
              | (Returned False, st3) \<Rightarrow>
               (case (if keyName \<noteq> [] then applyTo skipSubmit (byName idx keyName) v st3
                      else (Returned False, st3)) of
                  (Threw err, st4) \<Rightarrow> (Threw err, st4)
                | (Returned True, st4) \<Rightarrow> (Returned (), st4)
                | (Returned False, st4) \<Rightarrow>
                    applied (if keyHtmlId \<noteq> []
                             then applyTo skipSubmit (byHtmlId idx keyHtmlId) v st4
                             else (Returned False, st4)))))))"

fun fillItems :: "host \<Rightarrow> fieldIndex \<Rightarrow> bool \<Rightarrow> json list \<Rightarrow> fillState \<Rightarrow> unit result \<times> fillState" where
  "fillItems h idx skipSubmit [] st = (Returned (), st)"
| "fillItems h idx skipSubmit (item # items) st =
     (case fillItem h idx skipSubmit item st of
        (Threw err, st1) \<Rightarrow> (Threw err, st1)
      | (Returned u, st1) \<Rightarrow> fillItems h idx skipSubmit items st1)"

definition lookupGroup :: "fieldIndex \<Rightarrow> string \<Rightarrow> choiceGroup option" where
  "lookupGroup idx groupKey =
    (case byGroup idx groupKey of
       Some g \<Rightarrow> Some g
     | None \<Rightarrow>
         (case byGroupQuestion idx (normalizeKey groupKey) of
            None \<Rightarrow> None
          | Some alt \<Rightarrow> if alt \<noteq> [] then byGroup idx alt else None))"

text \<open>The body shared by the two branches of the choice loop: match one value, mark the
  matched option, count it and record its form.\<close>

definition checkOption ::
  "host \<Rightarrow> bool \<Rightarrow> bool \<Rightarrow> opt list \<Rightarrow> json \<Rightarrow> fillState \<Rightarrow> unit result \<times> fillState" where
  "checkOption h skipSubmit isRadio options v st =
    (case selectBy (doc st) options v of
       None \<Rightarrow> (Returned (), st)
     | Some c \<Rightarrow>
         (case ensureChecked h (optEl c) isRadio skipSubmit (doc st) of
            (Threw err, p1) \<Rightarrow> (Threw err, st\<lparr>doc := p1\<rparr>)
          | (Returned u, p1) \<Rightarrow>
              (Returned (),
               st\<lparr>filledCount := filledCount st + 1,
                  touchedForms := addForm (closest p1 (isTag ''form'') (optEl c)) (touchedForms st),
                  doc := p1\<rparr>)))"

fun checkOptions ::
  "host \<Rightarrow> bool \<Rightarrow> opt list \<Rightarrow> json list \<Rightarrow> fillState \<Rightarrow> unit result \<times> fillState" where
  "checkOptions h skipSubmit options [] st = (Returned (), st)"
| "checkOptions h skipSubmit options (v # vs) st =
     (case checkOption h skipSubmit False options v st of
        (Threw err, st1) \<Rightarrow> (Threw err, st1)
      | (Returned u, st1) \<Rightarrow> checkOptions h skipSubmit options vs st1)"

definition fillChoice ::
  "host \<Rightarrow> fieldIndex \<Rightarrow> bool \<Rightarrow> string \<times> json \<Rightarrow> fillState \<Rightarrow> unit result \<times> fillState" where
  "fillChoice h idx skipSubmit kv st =
    (case lookupGroup idx (fst kv) of
       None \<Rightarrow> (Returned (), st)
     | Some g \<Rightarrow>
         (case snd kv of
            JArr vs \<Rightarrow> checkOptions h skipSubmit (gOptions g) vs st
          | JStr s \<Rightarrow> checkOption h skipSubmit True (gOptions g) (JStr s) st
          | _ \<Rightarrow> (Returned (), st)))"

fun fillChoices ::
  "host \<Rightarrow> fieldIndex \<Rightarrow> bool \<Rightarrow> (string \<times> json) list \<Rightarrow> fillState \<Rightarrow> unit result \<times> fillState" where
  "fillChoices h idx skipSubmit [] st = (Returned (), st)"
| "fillChoices h idx skipSubmit (kv # kvs) st =
     (case fillChoice h idx skipSubmit kv st of
        (Threw err, st1) \<Rightarrow> (Threw err, st1)
      | (Returned u, st1) \<Rightarrow> fillChoices h idx skipSubmit kvs st1)"

definition resolveKey :: "fieldIndex \<Rightarrow> string \<Rightarrow> eid option" where
  \<comment> \<open>\<^verbatim>\<open>index.byId.get(key) || index.byLabel.get(normalizeKey(key)) || ...\<close>\<close>
  "resolveKey idx key =
    (case byId idx key of Some e \<Rightarrow> Some e | None \<Rightarrow>
     (case byLabel idx (normalizeKey key) of Some e \<Rightarrow> Some e | None \<Rightarrow>
      (case byName idx (normalizeKey key) of Some e \<Rightarrow> Some e | None \<Rightarrow>
       (case byHtmlId idx (normalizeKey key) of Some e \<Rightarrow> Some e | None \<Rightarrow>
        byPlaceholder idx (normalizeKey key)))))"

definition fillField ::
  "fieldIndex \<Rightarrow> bool \<Rightarrow> string \<times> json \<Rightarrow> fillState \<Rightarrow> unit result \<times> fillState" where
  "fillField idx skipSubmit kv st =
    (case resolveKey idx (fst kv) of
       None \<Rightarrow> (Returned (), st)
     | Some e \<Rightarrow> applied (applyTo skipSubmit (Some e) (Some (snd kv)) st))"

fun fillFields ::
  "fieldIndex \<Rightarrow> bool \<Rightarrow> (string \<times> json) list \<Rightarrow> fillState \<Rightarrow> unit result \<times> fillState" where
  "fillFields idx skipSubmit [] st = (Returned (), st)"
| "fillFields idx skipSubmit (kv # kvs) st =
     (case fillField idx skipSubmit kv st of
        (Threw err, st1) \<Rightarrow> (Threw err, st1)
      | (Returned u, st1) \<Rightarrow> fillFields idx skipSubmit kvs st1)"

definition fillObject ::
  "host \<Rightarrow> fieldIndex \<Rightarrow> bool \<Rightarrow> json \<Rightarrow> fillState \<Rightarrow> unit result \<times> fillState" where
  \<comment> \<open>the branch for \<^verbatim>\<open>typeof answers === "object"\<close>\<close>
  "fillObject h idx skipSubmit answers st =
    (let choices = getProp (Some answers) ''choices'';
         fields = getProp (Some answers) ''fields'';
         r = (case choices of
                Some c \<Rightarrow> if isObject choices then fillChoices h idx skipSubmit (entries c) st
                           else (Returned (), st)
              | None \<Rightarrow> (Returned (), st))
     in case r of
          (Threw err, st1) \<Rightarrow> (Threw err, st1)
        | (Returned u, st1) \<Rightarrow>
            (case fields of
               Some f \<Rightarrow> if isObject fields then fillFields idx skipSubmit (entries f) st1
                          else fillFields idx skipSubmit (entries answers) st1
             | None \<Rightarrow> fillFields idx skipSubmit (entries answers) st1))"

definition isSubmitControl :: "element \<Rightarrow> bool" where
  \<comment> \<open>\<^verbatim>\<open>button, input[type='submit']\<close>\<close>
  "isSubmitControl el = (isTag ''button'' el \<or> (isTag ''input'' el \<and> typeIs ''submit'' el))"

text \<open>The last step of \<^verbatim>\<open>fillAnswers\<close>: with auto-submit on and submission not skipped,
  the submit control of the first touched form is clicked, or the form submitted where it
  has none. An exception of this step, which the source swallows, is not modelled.\<close>

definition submitStep :: "host \<Rightarrow> bool \<Rightarrow> fillState \<Rightarrow> fillResult \<times> page" where
  "submitStep h skipSubmit st =
    (let shouldSubmit = autoSubmit h \<and> \<not> skipSubmit
     in case touchedForms st of
          [] \<Rightarrow> (\<lparr>filled = filledCount st, submitted = False\<rparr>, doc st)
        | form # _ \<Rightarrow>
            if shouldSubmit
            then (let p = doc st;
                      btn = (case querySelectorAllIn p form (typeIs ''submit'') of
                               b # _ \<Rightarrow> Some b
                             | [] \<Rightarrow> (case querySelectorAllIn p form isSubmitControl of
                                        b # _ \<Rightarrow> Some b | [] \<Rightarrow> None))
                  in (\<lparr>filled = filledCount st, submitted = True\<rparr>,
                      p\<lparr>trace := trace p @ [case btn of Some b \<Rightarrow> Click b | None \<Rightarrow> Submit form]\<rparr>))
            else (\<lparr>filled = filledCount st, submitted = False\<rparr>, doc st))"

definition fillAnswers :: "host \<Rightarrow> jsval \<Rightarrow> bool \<Rightarrow> page \<Rightarrow> fillResult result \<times> page" where
  "fillAnswers h answers skipSubmit p =
    (if \<not> truthy answers then (Returned \<lparr>filled = 0, submitted = False\<rparr>, p)
     else
      (let built = buildFieldIndex p;
           idx = fst built;
           st0 = \<lparr>filledCount = 0, touchedForms = [], doc = snd built\<rparr>;
           r = (case answers of
                  Some (JArr items) \<Rightarrow> fillItems h idx skipSubmit items st0
                | Some (JObj kvs) \<Rightarrow> fillObject h idx skipSubmit (JObj kvs) st0
                | _ \<Rightarrow> (Returned (), st0))
       in case r of
            (Threw err, st) \<Rightarrow> (Threw err, doc st)
          | (Returned u, st) \<Rightarrow>
              (let out = submitStep h skipSubmit st in (Returned (fst out), snd out))))"

section \<open>The capture orchestrator\<close>

definition generateFieldId :: "page \<Rightarrow> eid \<Rightarrow> nat \<Rightarrow> string" where
  "generateFieldId p e index =
    (let el = els p e;
         aria = attrOrEmpty p e ''aria-label'';
         placeholder = attrOrEmpty p e ''placeholder'';
         ty = (if attrOrEmpty p e ''type'' \<noteq> [] then attrOrEmpty p e ''type'' else tagName el)
     in join ''|''
          ((if idProp el \<noteq> [] then [''id:'' @ idProp el] else []) @
           (if nameProp el \<noteq> [] then [''name:'' @ nameProp el] else []) @
           (if aria \<noteq> [] then [''aria:'' @ aria] else []) @
           (if placeholder \<noteq> [] then [''ph:'' @ placeholder] else []) @
           [''type:'' @ ty, ''idx:'' @ digitsOf index]))"

fun applyTags :: "(eid \<times> string \<times> string) list \<Rightarrow> page \<Rightarrow> page" where
  "applyTags [] p = p"
| "applyTags (t # ts) p = applyTags ts (setAttribute (fst t) (fst (snd t)) (snd (snd t)) p)"

definition request :: "host \<Rightarrow> request \<Rightarrow> page \<Rightarrow> (jsError + jsval) \<times> page" where
  \<comment> \<open>\<^verbatim>\<open>await chrome.runtime.sendMessage(...)\<close>: the reply, and the request on the trace\<close>
  "request h r p = (sendMessage h r p, p\<lparr>trace := trace p @ [SendMessage r]\<rparr>)"

definition errorOr :: "jsval \<Rightarrow> string \<Rightarrow> jsError" where
  \<comment> \<open>\<^verbatim>\<open>new Error(response?.error || fallback)\<close>\<close>
  "errorOr response fallback =
    (let e = getProp response ''error'' in JsError (if truthy e then toStrV e else fallback))"

definition choicesOf :: "jsval \<Rightarrow> json" where
  \<comment> \<open>\<^verbatim>\<open>{ choices: response.choices || {} }\<close>\<close>
  "choicesOf response =
    JObj [(''choices'', (case getProp response ''choices'' of
                           Some c \<Rightarrow> if truthy (Some c) then c else JObj []
                         | None \<Rightarrow> JObj []))]"

text \<open>The part of the two choice strategies after discovery: ask the provider, apply the
  choices. It raises where the source raises; the strategies wrap it in their
  \<^verbatim>\<open>try\<close>.\<close>

definition askAndFillChoices :: "host \<Rightarrow> strategy \<Rightarrow> bool \<Rightarrow> page \<Rightarrow> bool result \<times> page" where
  "askAndFillChoices h s skipSubmit p =
    (case request h (CallAiChoicesForSelection s) p of
       (Inl err, p1) \<Rightarrow> (Threw err, p1)
     | (Inr response, p1) \<Rightarrow>
         if \<not> truthy (getProp response ''ok'')
         then (Threw (errorOr response (case s of
                        SelectionScoped \<Rightarrow> ''AI selection request failed''
                      | ViewportScoped \<Rightarrow> ''AI viewport selection request failed'')), p1)
         else (case fillAnswers h (Some (choicesOf response)) skipSubmit p1 of
                 (Threw err, p2) \<Rightarrow> (Threw err, p2)
               | (Returned res, p2) \<Rightarrow> (Returned (filled res > 0), p2)))"

definition catchAll :: "bool result \<times> page \<Rightarrow> bool \<times> page" where
  \<comment> \<open>\<^verbatim>\<open>try { ... return { ok } } catch (_) { return { ok: false } }\<close>\<close>
  "catchAll r = (case fst r of Threw err \<Rightarrow> (False, snd r) | Returned ok \<Rightarrow> (ok, snd r))"

definition fillSelectionChoicesIfAny :: "host \<Rightarrow> bool \<Rightarrow> page \<Rightarrow> bool \<times> page" where
  "fillSelectionChoicesIfAny h skipSubmit p =
    catchAll
      (case scanSelection h p of
         None \<Rightarrow> (Returned False, p)
       | Some (Scan tags failure) \<Rightarrow>
           (let p1 = applyTags tags p
            in case failure of
                 Some err \<Rightarrow> (Threw err, p1)
               | None \<Rightarrow> askAndFillChoices h SelectionScoped skipSubmit p1))"

definition fillViewportChoicesIfAny :: "host \<Rightarrow> bool \<Rightarrow> page \<Rightarrow> bool \<times> page" where
  "fillViewportChoicesIfAny h skipSubmit p =
    catchAll
      (case collectSchema h p of
         Scan tags failure \<Rightarrow>
           (let p1 = applyTags tags p
            in case failure of
                 Some err \<Rightarrow> (Threw err, p1)
               | None \<Rightarrow>
                   if \<not> viewportGroup h p1 then (Returned False, p1)
                   else askAndFillChoices h ViewportScoped skipSubmit p1))"

definition isTextLike :: "page \<Rightarrow> eid \<Rightarrow> bool" where
  \<comment> \<open>\<^verbatim>\<open>active.matches('input, textarea') || active.hasAttribute('contenteditable')\<close>\<close>
  "isTextLike p e =
    (tagName (els p e) = ''input'' \<or> tagName (els p e) = ''textarea'' \<or>
     hasAttribute p e ''contenteditable'')"

definition fillFocusedFieldIfAny :: "host \<Rightarrow> page \<Rightarrow> bool result \<times> page" where
  "fillFocusedFieldIfAny h p =
    (case activeElement p of
       None \<Rightarrow> (Returned False, p)
     | Some target \<Rightarrow>
         if \<not> isTextLike p target then (Returned False, p)
         else
          (let p1 = setAttribute target ''data-autoanswer-id'' (generateFieldId p target 0) p
           in case request h CallAiFocused p1 of
                (Inl err, p2) \<Rightarrow> (Threw err, p2)
              | (Inr resp, p2) \<Rightarrow>
                  if \<not> truthy (getProp resp ''ok'')
                  then (Threw (errorOr resp ''AI focused request failed''), p2)
                  else (case setElementValue target
                               (orElse (getProp resp ''answer'') (Some (JStr []))) False p2 of
                          (Threw err, p3) \<Rightarrow> (Threw err, p3)
                        | (Returned u, p3) \<Rightarrow> (Returned True, p3))))"

definition captureAndFill :: "host \<Rightarrow> bool \<Rightarrow> page \<Rightarrow> fillResult result \<times> page" where
  "captureAndFill h skipSubmit p =
    (case collectSchema h p of
       Scan tags failure \<Rightarrow>
         (let p1 = applyTags tags p
          in case failure of
               Some err \<Rightarrow> (Threw err, p1)
             | None \<Rightarrow>
                 (case request h CallAi p1 of
                    (Inl err, p2) \<Rightarrow> (Threw err, p2)
                  | (Inr response, p2) \<Rightarrow>
                      if \<not> truthy (getProp response ''ok'')
                      then (Threw (errorOr response ''AI request failed''), p2)
                      else fillAnswers h (getProp response ''answers'') skipSubmit p2)))"

record message =
  msgType :: string
  msgSkipSubmit :: bool

datatype response =
    NoResponse
  | Response fillResult
  | Failure string

definition filledOne :: fillResult where
  "filledOne = \<lparr>filled = 1, submitted = False\<rparr>"

text \<open>The message listener: the strategies in the order of the source, inside its
  \<^verbatim>\<open>try\<close>, whose \<^verbatim>\<open>catch\<close> answers \<^verbatim>\<open>{ ok: false, error: String(err) }\<close>.\<close>

definition onMessage :: "host \<Rightarrow> message \<Rightarrow> page \<Rightarrow> response \<times> page" where
  "onMessage h m p =
    (if msgType m \<noteq> ''captureAndFill'' then (NoResponse, p)
     else
      (let selResult = fillSelectionChoicesIfAny h (msgSkipSubmit m) p
       in if fst selResult then (Response filledOne, snd selResult)
          else
           (let viewResult = fillViewportChoicesIfAny h (msgSkipSubmit m) (snd selResult)
            in if fst viewResult then (Response filledOne, snd viewResult)
               else
                (case fillFocusedFieldIfAny h (snd viewResult) of
                   (Threw err, p3) \<Rightarrow> (Failure (errString err), p3)
                 | (Returned True, p3) \<Rightarrow> (Response filledOne, p3)
                 | (Returned False, p3) \<Rightarrow>
                     (case captureAndFill h (msgSkipSubmit m) p3 of
                        (Threw err, p4) \<Rightarrow> (Failure (errString err), p4)
                      | (Returned res, p4) \<Rightarrow> (Response res, p4))))))"

definition sent :: "page \<Rightarrow> request list" where
  \<comment> \<open>the requests made to the provider so far, in order\<close>
  "sent p = concat (map (\<lambda>a. case a of SendMessage r \<Rightarrow> [r] | _ \<Rightarrow> []) (trace p))"

section \<open>Resolution order, as the specification words it\<close>

fun firstHit :: "eid option list \<Rightarrow> eid option" where
  \<comment> \<open>candidates tried in order, the first hit wins\<close>
  "firstHit [] = None"
| "firstHit (None # cs) = firstHit cs"
| "firstHit (Some e # cs) = Some e"

definition lookupIf :: "(string \<rightharpoonup> eid) \<Rightarrow> string \<Rightarrow> eid option" where
  \<comment> \<open>a lookup that is made only for a non-empty normalized key\<close>
  "lookupIf m k = (if k \<noteq> [] then m k else None)"

definition itemValue :: "json \<Rightarrow> jsval" where
  \<comment> \<open>\<^verbatim>\<open>item.answer ?? item.value ?? item.text\<close>\<close>
  "itemValue item =
     nullish (getProp (Some item) ''answer'')
       (nullish (getProp (Some item) ''value'') (getProp (Some item) ''text''))"

definition itemCandidates :: "fieldIndex \<Rightarrow> eid option \<Rightarrow> json \<Rightarrow> eid option list" where
  \<comment> \<open>the candidates of a list item, in order: identifier (if the item has one), the
      element found by the explicit selector, normalized label, name, htmlId\<close>
  "itemCandidates idx bySelector item =
    (let it = Some item
     in [if truthy (orElse (getProp it ''id'') (getProp it ''fieldId''))
         then mapGet (byId idx) (orElse (getProp it ''id'') (getProp it ''fieldId''))
         else None,
         bySelector,
         lookupIf (byLabel idx) (normalizeKeyV (getProp it ''label'')),
         lookupIf (byName idx) (normalizeKeyV (getProp it ''name'')),
         lookupIf (byHtmlId idx)
           (normalizeKeyV (orElse (getProp it ''htmlId'') (getProp it ''idAttr'')))])"

definition keyCandidates :: "fieldIndex \<Rightarrow> string \<Rightarrow> eid option list" where
  \<comment> \<open>the candidates of a key of a \<^verbatim>\<open>fields\<close> object or of a flat map, in order\<close>
  "keyCandidates idx key =
     [byId idx key, byLabel idx (normalizeKey key), byName idx (normalizeKey key),
      byHtmlId idx (normalizeKey key), byPlaceholder idx (normalizeKey key)]"

text \<open>A payload none of whose keys the index knows: no item, field key or group key finds
  an entry under any lookup that \<open>fillAnswers\<close> makes for it, and no item brings a selector
  of its own.\<close>

definition itemAbsent :: "fieldIndex \<Rightarrow> json \<Rightarrow> bool" where
  "itemAbsent idx item =
     (\<not> truthy (getProp (Some item) ''selector'') \<and> firstHit (itemCandidates idx None item) = None)"

definition groupAbsent :: "fieldIndex \<Rightarrow> string \<Rightarrow> bool" where
  "groupAbsent idx k = (lookupGroup idx k = None)"

definition keyAbsent :: "fieldIndex \<Rightarrow> string \<Rightarrow> bool" where
  "keyAbsent idx k = (firstHit (keyCandidates idx k) = None)"

definition fieldEntries :: "json \<Rightarrow> (string \<times> json) list" where
  \<comment> \<open>the entries that the field loop of an object payload visits\<close>
  "fieldEntries answers =
     (if isObject (getProp (Some answers) ''fields'')
      then (case getProp (Some answers) ''fields'' of Some f \<Rightarrow> entries f | None \<Rightarrow> [])
      else entries answers)"

definition choiceEntries :: "json \<Rightarrow> (string \<times> json) list" where
  \<comment> \<open>the entries that the choice loop of an object payload visits\<close>
  "choiceEntries answers =
     (if isObject (getProp (Some answers) ''choices'')
      then (case getProp (Some answers) ''choices'' of Some c \<Rightarrow> entries c | None \<Rightarrow> [])
      else [])"

definition absentKeys :: "fieldIndex \<Rightarrow> jsval \<Rightarrow> bool" where
  "absentKeys idx answers =
    (case answers of
       Some (JArr items) \<Rightarrow> list_all (itemAbsent idx) items
     | Some (JObj kvs) \<Rightarrow>
         list_all (\<lambda>kv. groupAbsent idx (fst kv)) (choiceEntries (JObj kvs)) \<and>
         list_all (\<lambda>kv. keyAbsent idx (fst kv)) (fieldEntries (JObj kvs))
     | _ \<Rightarrow> True)"

section \<open>Example documents\<close>

definition blankElement :: element where
  "blankElement = \<lparr>tagName = ''div'', idProp = [], nameProp = [], attrs = Map.empty,
     ancestors = [], innerText = [], labelForElement = ''div'', groupQuestion = [],
     valueProp = [], textContent = [], checked = False\<rparr>"

definition mkElement ::
  "string \<Rightarrow> (string \<times> string) list \<Rightarrow> eid list \<Rightarrow> string \<Rightarrow> string \<Rightarrow> bool \<Rightarrow> element" where
  "mkElement tag as anc label question isChecked =
     \<lparr>tagName = tag, idProp = [],
      nameProp = (case map_of as ''name'' of None \<Rightarrow> [] | Some n \<Rightarrow> n),
      attrs = map_of as, ancestors = anc, innerText = [], labelForElement = label,
      groupQuestion = question, valueProp = [], textContent = [], checked = isChecked\<rparr>"

definition pageOf :: "element list \<Rightarrow> eid option \<Rightarrow> page" where
  "pageOf xs active =
     \<lparr>els = (\<lambda>i. if i < length xs then xs ! i else blankElement),
      docOrder = [0..<length xs], activeElement = active, trace = []\<rparr>"

text \<open>A form with a radio group named \<^verbatim>\<open>color\<close>, tagged by an earlier discovery
  pass.\<close>

definition colourForm :: page where
  "colourForm = pageOf
    [mkElement ''form'' [] [] ''form'' [] False,
     mkElement ''input''
       [(''type'', ''radio''), (''name'', ''color''),
        (''data-autoanswer-id'', ''name:color|type:radio|idx:0''),
        (''data-autoanswer-group'', ''group:radio:0'')] [0] ''Red'' ''Colour'' False,
     mkElement ''input''
       [(''type'', ''radio''), (''name'', ''color''),
        (''data-autoanswer-id'', ''name:color|type:radio|idx:1''),
        (''data-autoanswer-group'', ''group:radio:0'')] [0] ''Green'' ''Colour'' False,
     mkElement ''input''
       [(''type'', ''radio''), (''name'', ''color''),
        (''data-autoanswer-id'', ''name:color|type:radio|idx:2''),
        (''data-autoanswer-group'', ''group:radio:0'')] [0] ''Blue'' ''Colour'' False]
    None"

definition colourOptions :: "opt list" where
  "colourOptions =
    [\<lparr>optEl = 1, optLabel = ''Red'', optId = ''name:color|type:radio|idx:0''\<rparr>,
     \<lparr>optEl = 2, optLabel = ''Green'', optId = ''name:color|type:radio|idx:1''\<rparr>,
     \<lparr>optEl = 3, optLabel = ''Blue'', optId = ''name:color|type:radio|idx:2''\<rparr>]"

text \<open>A text input whose label is ``Contact'' and whose placeholder is ``Mail''.\<close>

definition contactPage :: page where
  "contactPage = pageOf
    [mkElement ''input''
       [(''type'', ''text''), (''placeholder'', ''Mail''),
        (''data-autoanswer-id'', ''ph:Mail|type:text|idx:0'')] [] ''Contact'' [] False]
    None"

text \<open>A radio group of two options and a text input whose label is ``Choices''.\<close>

definition choicesPage :: page where
  "choicesPage = pageOf
    [mkElement ''input''
       [(''type'', ''radio''), (''name'', ''q''),
        (''data-autoanswer-id'', ''name:q|type:radio|idx:0''),
        (''data-autoanswer-group'', ''group:radio:0'')] [] ''Yes'' ''Q'' False,
     mkElement ''input''
       [(''type'', ''radio''), (''name'', ''q''),
        (''data-autoanswer-id'', ''name:q|type:radio|idx:1''),
        (''data-autoanswer-group'', ''group:radio:0'')] [] ''No'' ''Q'' False,
     mkElement ''input''
       [(''type'', ''text''),
        (''data-autoanswer-id'', ''type:text|idx:0'')] [] ''Choices'' [] False]
    None"

text \<open>Two native radio inputs without a \<^verbatim>\<open>name\<close>, grouped by discovery under their
  heading; the first one is checked.\<close>

definition unnamedRadios :: page where
  "unnamedRadios = pageOf
    [mkElement ''input''
       [(''type'', ''radio''), (''data-autoanswer-id'', ''type:radio|idx:0''),
        (''data-autoanswer-group'', ''group:radio:0'')] [] ''Yes'' ''Q'' True,
     mkElement ''input''
       [(''type'', ''radio''), (''data-autoanswer-id'', ''type:radio|idx:1''),
        (''data-autoanswer-group'', ''group:radio:0'')] [] ''No'' ''Q'' False]
    None"

text \<open>Two checkboxes of one group.\<close>

definition fruitBoxes :: page where
  "fruitBoxes = pageOf
    [mkElement ''input''
       [(''type'', ''checkbox''), (''name'', ''fruit''),
        (''data-autoanswer-id'', ''name:fruit|type:checkbox|idx:0''),
        (''data-autoanswer-group'', ''group:checkbox:0'')] [] ''Apple'' ''Fruit'' False,
     mkElement ''input''
       [(''type'', ''checkbox''), (''name'', ''fruit''),
        (''data-autoanswer-id'', ''name:fruit|type:checkbox|idx:1''),
        (''data-autoanswer-group'', ''group:checkbox:0'')] [] ''Pear'' ''Fruit'' False]
    None"

text \<open>A text input and an editable region; the text input has the focus.\<close>

definition notesPage :: page where
  "notesPage = pageOf
    [mkElement ''input'' [(''type'', ''text'')] [] ''Title'' [] False,
     mkElement ''div'' [(''contenteditable'', ''true'')] [] ''Notes'' [] False]
    (Some 0)"

text \<open>A file input, tagged by an earlier discovery pass and labelled ``Resume'', followed
  by a text input; the file input has the focus.\<close>

definition uploadPage :: page where
  "uploadPage = pageOf
    [mkElement ''input''
       [(''type'', ''file''), (''data-autoanswer-id'', ''type:file|idx:0'')] [] ''Resume'' [] False,
     mkElement ''input''
       [(''type'', ''text''), (''data-autoanswer-id'', ''type:text|idx:1'')] [] ''Name'' [] False]
    (Some 0)"

text \<open>A host that finds nothing by selector, has auto-submit off, never raises, whose
  discovery passes find nothing, and whose provider rejects every request.\<close>

definition quietHost :: host where
  "quietHost = \<lparr>querySelectorHost = (\<lambda>p s. Inr None), autoSubmit = False,
     checkedStateRaises = (\<lambda>e. None),
     sendMessage = (\<lambda>r p. Inr (Some (JObj [(''ok'', JBool False), (''error'', JStr ''Error: quota exceeded'')]))),
     scanSelection = (\<lambda>p. None), collectSchema = (\<lambda>p. Scan [] None),
     viewportGroup = (\<lambda>p. False)\<rparr>"

text \<open>A group whose option identifiers are generated identifiers and two of whose labels
  spell the identifier of the first option with a capital letter.\<close>

definition echoOptions :: "opt list" where
  "echoOptions =
    [\<lparr>optEl = 1, optLabel = ''None of these'', optId = ''type:radio|idx:0''\<rparr>,
     \<lparr>optEl = 2, optLabel = ''Type:radio|idx:0'', optId = ''type:radio|idx:1''\<rparr>,
     \<lparr>optEl = 3, optLabel = ''Type:radio|idx:0'', optId = ''type:radio|idx:2''\<rparr>]"

text \<open>A group with the labels ``String'' and ``string''.\<close>

definition stringOptions :: "opt list" where
  "stringOptions =
    [\<lparr>optEl = 1, optLabel = ''String'', optId = ''type:radio|idx:0''\<rparr>,
     \<lparr>optEl = 2, optLabel = ''string'', optId = ''type:radio|idx:1''\<rparr>]"

definition yesOptions :: "opt list" where
  "yesOptions =
    [\<lparr>optEl = 1, optLabel = ''Yes'', optId = ''type:radio|idx:0''\<rparr>,
     \<lparr>optEl = 2, optLabel = ''yes, please'', optId = ''type:radio|idx:1''\<rparr>]"

section \<open>What ensureChecked writes, as a trace\<close>

definition exclusivitySet :: "page \<Rightarrow> eid \<Rightarrow> eid list" where
  \<comment> \<open>the siblings that \<open>ensureChecked\<close> clears for the target \<open>e\<close>\<close>
  "exclusivitySet p e =
     (case siblingsOf p e of None \<Rightarrow> [] | Some nodes \<Rightarrow> filter (\<lambda>n. n \<noteq> e) nodes)"

definition clearAction :: "page \<Rightarrow> eid \<Rightarrow> action" where
  "clearAction p n =
     (if hasAttribute p n ''role'' then SetAttribute n ''aria-checked'' ''false''
      else SetChecked n False)"

definition markActions :: "page \<Rightarrow> eid \<Rightarrow> bool \<Rightarrow> action list" where
  "markActions p e suppressSubmit =
     (if hasAttribute p e ''role''
      then SetAttribute e ''aria-checked'' ''true'' #
           (if suppressSubmit then [] else [DispatchEvent e ''click'', DispatchEvent e ''change''])
      else SetChecked e True # DispatchEvent e ''input'' #
           (if suppressSubmit then [] else [DispatchEvent e ''change'']))"

text \<open>A host on which changing the checked state of element \<open>0\<close> raises, whose
  provider answers every request with both fruits for the checkbox group, as choices and
  as the answers of a full-page request, and whose viewport always shows a group.\<close>

definition fruitChoices :: json where
  "fruitChoices = JObj [(''group:checkbox:0'', JArr [JStr ''Apple'', JStr ''Pear''])]"

definition fruitReply :: json where
  "fruitReply = JObj [(''ok'', JBool True), (''choices'', fruitChoices),
                      (''answers'', JObj [(''choices'', fruitChoices)])]"

definition faultyHost :: host where
  "faultyHost = \<lparr>querySelectorHost = (\<lambda>p s. Inr None), autoSubmit = False,
     checkedStateRaises = (\<lambda>e. if e = 0 then Some (HostException ''InvalidStateError'') else None),
     sendMessage = (\<lambda>r p. Inr (Some fruitReply)),
     scanSelection = (\<lambda>p. None), collectSchema = (\<lambda>p. Scan [] None),
     viewportGroup = (\<lambda>p. True)\<rparr>"

definition fruitOptions :: "opt list" where
  "fruitOptions =
    [\<lparr>optEl = 0, optLabel = ''Apple'', optId = ''name:fruit|type:checkbox|idx:0''\<rparr>,
     \<lparr>optEl = 1, optLabel = ''Pear'', optId = ''name:fruit|type:checkbox|idx:1''\<rparr>]"

definition freshState :: "page \<Rightarrow> fillState" where
  \<comment> \<open>the state in which \<open>fillAnswers\<close> starts its loops\<close>
  "freshState p = \<lparr>filledCount = 0, touchedForms = [], doc = snd (buildFieldIndex p)\<rparr>"

text \<open>A host like \<open>quietHost\<close> whose selector engine rejects every selector.\<close>

definition strictHost :: host where
  "strictHost = quietHost\<lparr>querySelectorHost := (\<lambda>p s. Inl (HostException ''SyntaxError''))\<rparr>"

text \<open>Payloads for the examples.\<close>

definition mailByPlaceholder :: json where
  "mailByPlaceholder = JObj [(''placeholder'', JStr ''Mail''), (''answer'', JStr ''a@b.c'')]"

definition mailByLabel :: json where
  "mailByLabel = JObj [(''label'', JStr ''Contact''), (''answer'', JStr ''a@b.c'')]"

definition mailBySelector :: json where
  "mailBySelector = JObj [(''selector'', JStr ''[[''), (''answer'', JStr ''a@b.c'')]"

definition resumeByLabel :: json where
  "resumeByLabel = JObj [(''label'', JStr ''Resume''), (''answer'', JStr ''cv.pdf'')]"

definition mailFlat :: json where
  "mailFlat = JObj [(''Mail'', JStr ''a@b.c'')]"

definition radioChoice :: json where
  "radioChoice = JObj [(''group:radio:0'', JStr ''No'')]"

definition strangerPayload :: json where
  \<comment> \<open>a structured payload whose keys are identifiers of another document\<close>
  "strangerPayload =
     JObj [(''fields'', JObj [(''id:zip|type:text|idx:3'', JStr ''12345'')]),
           (''choices'', JObj [(''group:radio:7'', JStr ''Yes'')])]"

definition strangerList :: json where
  "strangerList = JArr [JObj [(''id'', JStr ''id:zip|type:text|idx:3''), (''answer'', JStr ''12345'')]]"

section \<open>Provider rejection and the order of requests\<close>

definition rejection :: "jsError + jsval \<Rightarrow> string \<Rightarrow> jsError option" where
  \<comment> \<open>what a strategy raises on the outcome of its request: the rejection of the message
      itself, or \<^verbatim>\<open>new Error(response?.error || fallback)\<close> for a response that is not
      \<^verbatim>\<open>ok\<close>; nothing for a response that is\<close>
  "rejection reply fallback =
     (case reply of
        Inl err \<Rightarrow> Some err
      | Inr response \<Rightarrow>
          if \<not> truthy (getProp response ''ok'') then Some (errorOr response fallback) else None)"

definition asked :: "bool \<Rightarrow> request \<Rightarrow> request list" where
  "asked b r = (if b then [r] else [])"

definition captureMessage :: message where
  "captureMessage = \<lparr>msgType = ''captureAndFill'', msgSkipSubmit = False\<rparr>"

text \<open>A host whose provider rejects the focused-field request and answers the full-page
  request with a value for the field labelled ``Title''; its discovery pass tags the two
  controls of the notes page.\<close>

definition pickyHost :: host where
  "pickyHost = \<lparr>querySelectorHost = (\<lambda>p s. Inr None), autoSubmit = False,
     checkedStateRaises = (\<lambda>e. None),
     sendMessage = (\<lambda>r p.
       if r = CallAi
       then Inr (Some (JObj [(''ok'', JBool True),
                             (''answers'', JObj [(''fields'', JObj [(''Title'', JStr ''Hello'')])])]))
       else Inr (Some (JObj [(''ok'', JBool False), (''error'', JStr ''Error: quota exceeded'')]))),
     scanSelection = (\<lambda>p. None),
     collectSchema = (\<lambda>p. Scan [(0, ''data-autoanswer-id'', ''type:text|idx:0''),
                                (1, ''data-autoanswer-id'', ''type:div|idx:1'')] None),
     viewportGroup = (\<lambda>p. False)\<rparr>"

text \<open>The same host on a page where the selection analysis and the viewport analysis
  both find a group, so that both choice strategies make their request, which the
  provider rejects.\<close>

definition busyHost :: host where
  "busyHost = pickyHost\<lparr>scanSelection := (\<lambda>p. Some (Scan [] None)),
                         viewportGroup := (\<lambda>p. True)\<rparr>"

text \<open>Hosts on which a choice strategy succeeds: the provider answers every request with
  both fruits and nothing raises; on the first the viewport analysis finds a group, on the
  second the selection analysis does.\<close>

definition fruitHost :: host where
  "fruitHost = faultyHost\<lparr>checkedStateRaises := (\<lambda>e. None)\<rparr>"

definition fruitSelectionHost :: host where
  "fruitSelectionHost = fruitHost\<lparr>scanSelection := (\<lambda>p. Some (Scan [] None))\<rparr>"

definition afterChoiceStrategies :: "host \<Rightarrow> bool \<Rightarrow> page \<Rightarrow> page" where
  \<comment> \<open>the page that the selection-scoped and then the viewport-scoped strategy leave\<close>
  "afterChoiceStrategies h skipSubmit p =
     snd (fillViewportChoicesIfAny h skipSubmit (snd (fillSelectionChoicesIfAny h skipSubmit p)))"

definition tagFocused :: "page \<Rightarrow> eid \<Rightarrow> page" where
  \<comment> \<open>the page on which the focus-scoped strategy makes its request for the target\<close>
  "tagFocused p t = setAttribute t ''data-autoanswer-id'' (generateFieldId p t 0) p"

definition notesUnfocused :: page where
  "notesUnfocused = notesPage\<lparr>activeElement := None\<rparr>"

section \<open>Properties of the option matcher\<close>

lemma scoreOf_nonneg: "0 \<le> scoreOf p exact rawLower norm c"
  by (simp add: scoreOf_def Let_def)

lemma selectLoop_keeps_Some:
  "\<exists>y. selectLoop p val exact rawLower norm cs (Some b) s = Some y"
  by (induction cs arbitrary: b s) (simp_all add: Let_def)

lemma selectLoop_None_iff:
  "(selectLoop p val exact rawLower norm cs None (- 1) = None) = (cs = [])"
proof (cases cs)
  case Nil
  then show ?thesis by simp
next
  case (Cons c cs')
  have "- 1 < scoreOf p exact rawLower norm c"
    using scoreOf_nonneg [of p exact rawLower norm c] by linarith
  then show ?thesis
    using Cons by (simp add: Let_def selectLoop_keeps_Some)
qed

lemma selectLoop_no_signal:
  "\<forall>x\<in>set cs. \<not> exactHit val exact x \<and> scoreOf p exact rawLower norm x \<le> s \<Longrightarrow>
   selectLoop p val exact rawLower norm cs best s = best"
  by (induction cs) (simp_all add: exactHit_def Let_def)

lemma selectLoop_exact_first:
  "find (exactHit val exact) cs = Some c \<Longrightarrow>
   selectLoop p val exact rawLower norm cs best s = Some c"
  by (induction cs arbitrary: best s) (auto simp add: exactHit_def Let_def split: if_splits)

lemma tieBreak_Nil: "tieBreak [] exact rawLower = None"
  by (simp add: tieBreak_def csCandidates_def)

lemma tieBreak_few:
  "length (csCandidates options rawLower) < 2 \<Longrightarrow> tieBreak options exact rawLower = None"
  by (simp add: tieBreak_def Let_def)

lemma tieBreak_Some:
  "tieBreak options exact rawLower = Some c \<Longrightarrow>
   c \<in> set (csCandidates options rawLower) \<and>
   (trim (optLabel c) = exact \<or> startsUpper (trim (optLabel c)))"
  by (auto simp add: tieBreak_def Let_def find_Some_iff
      split: if_splits option.splits dest!: nth_mem)

lemma selectBy_None_iff:
  "(selectBy p options val = None) = (val = JNull \<or> options = [])"
  by (cases "tieBreak options (trim (toStr val)) (keepPunctLowerV val)")
     (auto simp add: selectBy_def Let_def selectLoop_None_iff tieBreak_Nil)

lemma zero_score_not_candidate:
  "scoreOf p exact rawLower norm c = 0 \<Longrightarrow> keepPunctLower (optLabel c) \<noteq> rawLower"
  by (auto simp add: scoreOf_def Let_def)

lemma selectBy_no_signal:
  assumes "val \<noteq> JNull"
    and "\<forall>x\<in>set (c # cs). \<not> exactHit val (trim (toStr val)) x \<and> tierScore p val x = 0"
  shows "selectBy p (c # cs) val = Some c"
proof -
  let ?exact = "trim (toStr val)" and ?raw = "keepPunctLowerV val"
    and ?norm = "normalizeKeyV (Some val)"
  have "csCandidates (c # cs) ?raw = []"
    using assms(2) zero_score_not_candidate [of p ?exact ?raw ?norm]
    by (auto simp add: csCandidates_def tierScore_def filter_empty_conv)
  then have tb: "tieBreak (c # cs) ?exact ?raw = None"
    by (simp add: tieBreak_few)
  have c0: "\<not> exactHit val ?exact c" "scoreOf p ?exact ?raw ?norm c = 0"
    using assms(2) by (simp_all add: tierScore_def)
  have rest: "\<forall>x\<in>set cs. \<not> exactHit val ?exact x \<and> scoreOf p ?exact ?raw ?norm x \<le> 0"
    using assms(2) by (simp add: tierScore_def)
  have "selectLoop p val ?exact ?raw ?norm (c # cs) None (- 1) = Some c"
    using c0 selectLoop_no_signal [OF rest] by (simp add: exactHit_def Let_def)
  then show ?thesis
    using assms(1) tb by (simp add: selectBy_def Let_def)
qed

lemma selectBy_tieBreak_first:
  "val \<noteq> JNull \<Longrightarrow> tieBreak options (trim (toStr val)) (keepPunctLowerV val) = Some c \<Longrightarrow>
   selectBy p options val = Some c"
  by (simp add: selectBy_def Let_def)

lemma selectBy_exact_before_scores:
  "val \<noteq> JNull \<Longrightarrow> tieBreak options (trim (toStr val)) (keepPunctLowerV val) = None \<Longrightarrow>
   find (exactHit val (trim (toStr val))) options = Some c \<Longrightarrow>
   selectBy p options val = Some c"
  by (simp add: selectBy_def Let_def selectLoop_exact_first)


text \<open>
  C1 (as the code has it). \<open>selectBy\<close> starts its scan with a best score of \<open>-1\<close>, so an
  option of score \<open>0\<close> does get selected: \<open>selectBy\<close> returns nothing only for a null
  value or a group without options, and when no option of the group has any match signal
  for the value (no identifier or exact-label hit, tier score \<open>0\<close> throughout) it returns
  the first option of the group.
\<close>

theorem selectBy_falls_back_to_first_option:
  "(selectBy p options val = None) = (val = JNull \<or> options = []) \<and>
   (val \<noteq> JNull \<and>
    (\<forall>x\<in>set (c # cs). \<not> exactHit val (trim (toStr val)) x \<and> tierScore p val x = 0)
    \<longrightarrow> selectBy p (c # cs) val = Some c)"
  using selectBy_None_iff [of p options val] selectBy_no_signal [of val c cs p] by blast

theorem selectBy_falls_back_to_first_option_witness:
  "selectBy colourForm colourOptions (JStr ''Purple'') \<noteq> None \<and>
   selectBy colourForm colourOptions (JStr ''Purple'') = Some (hd colourOptions)"
proof -
  have opts: "colourOptions = hd colourOptions # tl colourOptions"
    by (simp add: colourOptions_def)
  have nosig: "\<forall>x\<in>set (hd colourOptions # tl colourOptions).
      \<not> exactHit (JStr ''Purple'') (trim (toStr (JStr ''Purple''))) x \<and>
      tierScore colourForm (JStr ''Purple'') x = 0"
    unfolding opts [symmetric] by code_simp
  have "JStr ''Purple'' \<noteq> JNull \<and> colourOptions \<noteq> []"
    by (simp add: colourOptions_def)
  then show ?thesis
    using selectBy_falls_back_to_first_option
      [of colourForm colourOptions "JStr ''Purple''" "hd colourOptions" "tl colourOptions"]
      nosig opts by metis
qed

text \<open>
  C1 (as stated) fails: in the colour form no option of the radio group has a match signal
  for the answer ``Purple'', and the option ``Red'', of tier score \<open>0\<close>, is selected,
  checked and counted.
\<close>

theorem selectBy_never_zero_counterexample:
  "selectBy colourForm colourOptions (JStr ''Purple'') = Some (hd colourOptions) \<and>
   tierScore colourForm (JStr ''Purple'') (hd colourOptions) = 0 \<and>
   fst (fillAnswers quietHost
         (Some (JObj [(''choices'', JObj [(''group:radio:0'', JStr ''Purple'')]),
                      (''fields'', JObj [])])) False colourForm)
     = Returned \<lparr>filled = 1, submitted = False\<rparr> \<and>
   checked (els (snd (fillAnswers quietHost
         (Some (JObj [(''choices'', JObj [(''group:radio:0'', JStr ''Purple'')]),
                      (''fields'', JObj [])])) False colourForm)) 1)"
proof -
  have a: "selectBy colourForm colourOptions (JStr ''Purple'') = Some (hd colourOptions)"
    by code_simp
  have b: "tierScore colourForm (JStr ''Purple'') (hd colourOptions) = 0"
    by code_simp
  have c: "fst (fillAnswers quietHost
         (Some (JObj [(''choices'', JObj [(''group:radio:0'', JStr ''Purple'')]),
                      (''fields'', JObj [])])) False colourForm)
     = Returned \<lparr>filled = 1, submitted = False\<rparr>"
    by code_simp
  have d: "checked (els (snd (fillAnswers quietHost
         (Some (JObj [(''choices'', JObj [(''group:radio:0'', JStr ''Purple'')]),
                      (''fields'', JObj [])])) False colourForm)) 1)"
    by code_simp
  show ?thesis using a b c d by simp
qed

lemma selectBy_exactCase:
  "val \<noteq> JNull \<Longrightarrow> tied options val \<Longrightarrow> exactCase options val = Some c \<Longrightarrow>
   selectBy p options val = Some c"
  by (simp add: selectBy_def tieBreak_def tied_def exactCase_def Let_def)

lemma selectBy_capitalized:
  "val \<noteq> JNull \<Longrightarrow> tied options val \<Longrightarrow> exactCase options val = None \<Longrightarrow>
   capitalized options val = Some c \<Longrightarrow> selectBy p options val = Some c"
  by (simp add: selectBy_def tieBreak_def tied_def exactCase_def capitalized_def Let_def)

lemma tieBreak_undecided:
  "\<not> tied options val \<or> (exactCase options val = None \<and> capitalized options val = None) \<Longrightarrow>
   tieBreak options (trim (toStr val)) (keepPunctLowerV val) = None"
  by (auto simp add: tieBreak_def tied_def exactCase_def capitalized_def Let_def)

lemma selectBy_undecided:
  "val \<noteq> JNull \<Longrightarrow>
   \<not> tied options val \<or> (exactCase options val = None \<and> capitalized options val = None) \<Longrightarrow>
   find (exactHit val (trim (toStr val))) options = Some c \<Longrightarrow>
   selectBy p options val = Some c"
  by (rule selectBy_exact_before_scores) (simp_all add: tieBreak_undecided)

lemma exactCase_label:
  "exactCase options val = Some c \<Longrightarrow>
   c \<in> set options \<and> trim (optLabel c) = trim (toStr val) \<and>
   keepPunctLower (optLabel c) = keepPunctLowerV val"
  by (auto simp add: exactCase_def csCandidates_def find_Some_iff dest!: nth_mem)

lemma capitalized_label:
  "capitalized options val = Some c \<Longrightarrow>
   c \<in> set options \<and> startsUpper (trim (optLabel c)) \<and>
   keepPunctLower (optLabel c) = keepPunctLowerV val"
  by (auto simp add: capitalized_def csCandidates_def find_Some_iff dest!: nth_mem)

text \<open>
  C2 (as the code has it). \<open>selectBy\<close> consults the case-sensitive tie-break first. When at
  least two option labels equal the value without regard to case (\<open>tied\<close>), the first of
  them whose trimmed label is the trimmed value in its exact case is returned; when none
  of them has the exact case, the first of them that starts with a capital letter is
  returned. So the exact case beats the capital letter, and either pick is made before
  any identifier is compared. When the tie-break is undecided (fewer than two such labels,
  or none of them with the exact case or a capital letter), the first option in group
  order whose identifier equals the raw value or whose trimmed label equals the trimmed
  value is returned, whatever the scores of the other options. For the options ``Yes'' and
  ``yes, please'' and the value ``Yes'' the option ``Yes'' is returned, in either order of
  the two options.
\<close>

theorem selectBy_tieBreak_then_exact:
  "(val \<noteq> JNull \<and> tied options val \<and> exactCase options val = Some c
      \<longrightarrow> selectBy p options val = Some c \<and> c \<in> set options \<and>
          trim (optLabel c) = trim (toStr val)) \<and>
   (val \<noteq> JNull \<and> tied options val \<and> exactCase options val = None \<and>
    capitalized options val = Some c
      \<longrightarrow> selectBy p options val = Some c \<and> c \<in> set options \<and>
          startsUpper (trim (optLabel c)) \<and>
          keepPunctLower (optLabel c) = keepPunctLowerV val) \<and>
   (val \<noteq> JNull \<and>
    (\<not> tied options val \<or> (exactCase options val = None \<and> capitalized options val = None)) \<and>
    find (exactHit val (trim (toStr val))) options = Some c
      \<longrightarrow> selectBy p options val = Some c) \<and>
   selectBy p yesOptions (JStr ''Yes'') = Some (yesOptions ! 0) \<and>
   selectBy p (rev yesOptions) (JStr ''Yes'') = Some (yesOptions ! 0)"
proof -
  have few: "\<not> tied yesOptions (JStr ''Yes'')"
    by code_simp
  have few': "\<not> tied (rev yesOptions) (JStr ''Yes'')"
    by code_simp
  have hit: "find (exactHit (JStr ''Yes'') (trim (toStr (JStr ''Yes'')))) yesOptions
      = Some (yesOptions ! 0)"
    by code_simp
  have hit': "find (exactHit (JStr ''Yes'') (trim (toStr (JStr ''Yes'')))) (rev yesOptions)
      = Some (yesOptions ! 0)"
    by code_simp
  have yes: "selectBy p yesOptions (JStr ''Yes'') = Some (yesOptions ! 0)"
    using selectBy_undecided [of "JStr ''Yes''" yesOptions "yesOptions ! 0" p] few hit by simp
  have yes': "selectBy p (rev yesOptions) (JStr ''Yes'') = Some (yesOptions ! 0)"
    using selectBy_undecided [of "JStr ''Yes''" "rev yesOptions" "yesOptions ! 0" p] few' hit'
    by simp
  have p1: "val \<noteq> JNull \<and> tied options val \<and> exactCase options val = Some c
      \<longrightarrow> selectBy p options val = Some c \<and> c \<in> set options \<and>
          trim (optLabel c) = trim (toStr val)"
    using selectBy_exactCase [of val options c p] exactCase_label [of options val c]
    by blast
  have p2: "val \<noteq> JNull \<and> tied options val \<and> exactCase options val = None \<and>
    capitalized options val = Some c
      \<longrightarrow> selectBy p options val = Some c \<and> c \<in> set options \<and>
          startsUpper (trim (optLabel c)) \<and>
          keepPunctLower (optLabel c) = keepPunctLowerV val"
    using selectBy_capitalized [of val options c p] capitalized_label [of options val c]
    by blast
  have p3: "val \<noteq> JNull \<and>
    (\<not> tied options val \<or> (exactCase options val = None \<and> capitalized options val = None)) \<and>
    find (exactHit val (trim (toStr val))) options = Some c
      \<longrightarrow> selectBy p options val = Some c"
    using selectBy_undecided [of val options c p] by blast
  show ?thesis
    using p1 p2 p3 yes yes' by blast
qed

text \<open>In the group ``String'', ``string'' the value ``string'' selects the second option,
  of the exact case, over the capitalised first one; with the two options in the other
  order the value ``STRING'', which no label spells, selects the capitalised option, again
  the second one. In the colour form, where no two labels are equal without regard to
  case, the value ``Green'' selects the option of that label. In the group of the echoed
  identifier the two capitalised labels tie and the first of them is selected.\<close>

theorem selectBy_tieBreak_then_exact_witness:
  "selectBy colourForm stringOptions (JStr ''string'') = Some (stringOptions ! 1) \<and>
   startsUpper (trim (optLabel (stringOptions ! 0))) \<and>
   selectBy colourForm (rev stringOptions) (JStr ''STRING'') = Some (stringOptions ! 0) \<and>
   selectBy colourForm colourOptions (JStr ''Green'') = Some (colourOptions ! 1) \<and>
   selectBy colourForm echoOptions (JStr ''type:radio|idx:0'') = Some (echoOptions ! 1)"
proof -
  have nn: "JStr ''string'' \<noteq> JNull" "JStr ''STRING'' \<noteq> JNull" "JStr ''Green'' \<noteq> JNull"
    "JStr ''type:radio|idx:0'' \<noteq> JNull"
    by simp_all
  have s1: "tied stringOptions (JStr ''string'')"
    by code_simp
  have s2: "exactCase stringOptions (JStr ''string'') = Some (stringOptions ! 1)"
    by code_simp
  have s3: "startsUpper (trim (optLabel (stringOptions ! 0)))"
    by code_simp
  have r1: "tied (rev stringOptions) (JStr ''STRING'')"
    by code_simp
  have r2: "exactCase (rev stringOptions) (JStr ''STRING'') = None"
    by code_simp
  have r3: "capitalized (rev stringOptions) (JStr ''STRING'') = Some (stringOptions ! 0)"
    by code_simp
  have few: "\<not> tied colourOptions (JStr ''Green'')"
    by code_simp
  have hit: "find (exactHit (JStr ''Green'') (trim (toStr (JStr ''Green'')))) colourOptions
      = Some (colourOptions ! 1)"
    by code_simp
  have e1: "tied echoOptions (JStr ''type:radio|idx:0'')"
    by code_simp
  have e2: "exactCase echoOptions (JStr ''type:radio|idx:0'') = None"
    by code_simp
  have e3: "capitalized echoOptions (JStr ''type:radio|idx:0'') = Some (echoOptions ! 1)"
    by code_simp
  have a: "selectBy colourForm stringOptions (JStr ''string'') = Some (stringOptions ! 1)"
    using selectBy_tieBreak_then_exact
      [of "JStr ''string''" stringOptions "stringOptions ! 1" colourForm] nn s1 s2
    by blast
  have b: "selectBy colourForm (rev stringOptions) (JStr ''STRING'') = Some (stringOptions ! 0)"
    using selectBy_tieBreak_then_exact
      [of "JStr ''STRING''" "rev stringOptions" "stringOptions ! 0" colourForm] nn r1 r2 r3
    by blast
  have c: "selectBy colourForm colourOptions (JStr ''Green'') = Some (colourOptions ! 1)"
    using selectBy_tieBreak_then_exact
      [of "JStr ''Green''" colourOptions "colourOptions ! 1" colourForm] nn few hit
    by blast
  have d: "selectBy colourForm echoOptions (JStr ''type:radio|idx:0'') = Some (echoOptions ! 1)"
    using selectBy_tieBreak_then_exact
      [of "JStr ''type:radio|idx:0''" echoOptions "echoOptions ! 1" colourForm] nn e1 e2 e3
    by blast
  show ?thesis using a s3 b c d by simp
qed

text \<open>
  C2 (as stated) fails: the identifier of the first option equals the raw value, yet the
  tie-break, consulted first, returns the second option, whose label is neither the value
  nor its identifier.
\<close>

theorem selectBy_identifier_first_counterexample:
  "optId (echoOptions ! 0) = ''type:radio|idx:0'' \<and>
   selectBy colourForm echoOptions (JStr ''type:radio|idx:0'') = Some (echoOptions ! 1) \<and>
   \<not> exactHit (JStr ''type:radio|idx:0'') (trim (toStr (JStr ''type:radio|idx:0'')))
       (echoOptions ! 1)"
proof -
  have a: "optId (echoOptions ! 0) = ''type:radio|idx:0''"
    by code_simp
  have b: "selectBy colourForm echoOptions (JStr ''type:radio|idx:0'') = Some (echoOptions ! 1)"
    by code_simp
  have c: "\<not> exactHit (JStr ''type:radio|idx:0'') (trim (toStr (JStr ''type:radio|idx:0'')))
       (echoOptions ! 1)"
    by code_simp
  show ?thesis using a b c by simp
qed

section \<open>Properties of the document mutator\<close>

lemma setElementValue_input:
  "tagName (els p e) = ''input'' \<or> tagName (els p e) = ''textarea'' \<Longrightarrow>
   \<not> valueRaises p e (assigned v) \<Longrightarrow>
   setElementValue e v s p =
     (Returned (),
      p\<lparr>els := (els p)(e := (els p e)\<lparr>valueProp := assigned v\<rparr>),
        trace := trace p @ [SetValue e (assigned v), DispatchEvent e ''input''] @
                 (if s then [] else [DispatchEvent e ''change''])\<rparr>)"
  by (auto simp add: setElementValue_def setValue_def dispatchEvent_def Let_def)

lemma setElementValue_raises:
  "valueRaises p e (assigned v) \<Longrightarrow> setElementValue e v s p = (Threw invalidState, p)"
  by (simp add: setElementValue_def valueRaises_def isTag_def Let_def)

lemma setElementValue_editable:
  "tagName (els p e) \<noteq> ''input'' \<Longrightarrow> tagName (els p e) \<noteq> ''textarea'' \<Longrightarrow>
   hasAttribute p e ''contenteditable'' \<Longrightarrow>
   setElementValue e v s p =
     (let t = (case valueString v of None \<Rightarrow> [] | Some t \<Rightarrow> t)
      in (Returned (),
          p\<lparr>els := (els p)(e := (els p e)\<lparr>textContent := t\<rparr>),
            trace := trace p @ [SetTextContent e t, DispatchEvent e ''input'']\<rparr>))"
  by (simp add: setElementValue_def setTextContent_def dispatchEvent_def Let_def)

lemma setElementValue_other:
  "tagName (els p e) \<noteq> ''input'' \<Longrightarrow> tagName (els p e) \<noteq> ''textarea'' \<Longrightarrow>
   \<not> hasAttribute p e ''contenteditable'' \<Longrightarrow> setElementValue e v s p = (Returned (), p)"
  by (simp add: setElementValue_def Let_def)

lemma setElementValue_Threw:
  "fst (setElementValue e v s p) = Threw err \<Longrightarrow>
   valueRaises p e (assigned v) \<and> err = invalidState \<and> snd (setElementValue e v s p) = p"
  by (auto simp add: setElementValue_def Let_def split: if_splits)

text \<open>
  C8 (as the code has it). For an \<^verbatim>\<open>input\<close> or \<^verbatim>\<open>textarea\<close> node on which the value
  setter of the host does not raise, \<open>setElementValue\<close> sets the value (a string as it is,
  any other value as its JSON text) and emits an \<^verbatim>\<open>input\<close> notification followed by a
  \<^verbatim>\<open>change\<close> notification; the \<^verbatim>\<open>change\<close> notification is left out exactly when silent
  application is requested. On \<^verbatim>\<open><input type=file>\<close> with any value but the empty string
  the setter raises \<^verbatim>\<open>InvalidStateError\<close>: \<open>setElementValue\<close> raises it, writes nothing
  and emits no notification. For any other node with a \<^verbatim>\<open>contenteditable\<close> attribute it sets
  the text content and emits the \<^verbatim>\<open>input\<close> notification only, whether or not silent
  application is requested. Any other node is left as it is.
\<close>

theorem setElementValue_notifications:
  "((tagName (els p e) = ''input'' \<or> tagName (els p e) = ''textarea'') \<and>
    \<not> (tagName (els p e) = ''input'' \<and> typeIs ''file'' (els p e) \<and> assigned v \<noteq> []) \<longrightarrow>
      fst (setElementValue e v s p) = Returned () \<and>
      valueProp (els (snd (setElementValue e v s p)) e) = assigned v \<and>
      trace (snd (setElementValue e v s p))
        = trace p @ [SetValue e (assigned v), DispatchEvent e ''input''] @
          (if s then [] else [DispatchEvent e ''change''])) \<and>
   (tagName (els p e) = ''input'' \<and> typeIs ''file'' (els p e) \<and> assigned v \<noteq> [] \<longrightarrow>
      setElementValue e v s p = (Threw (HostException ''InvalidStateError''), p)) \<and>
   (tagName (els p e) \<noteq> ''input'' \<and> tagName (els p e) \<noteq> ''textarea'' \<and>
    hasAttribute p e ''contenteditable'' \<longrightarrow>
      fst (setElementValue e v s p) = Returned () \<and>
      textContent (els (snd (setElementValue e v s p)) e)
        = (case valueString v of None \<Rightarrow> [] | Some t \<Rightarrow> t) \<and>
      trace (snd (setElementValue e v s p))
        = trace p @ [SetTextContent e (case valueString v of None \<Rightarrow> [] | Some t \<Rightarrow> t),
                     DispatchEvent e ''input'']) \<and>
   (tagName (els p e) \<noteq> ''input'' \<and> tagName (els p e) \<noteq> ''textarea'' \<and>
    \<not> hasAttribute p e ''contenteditable'' \<longrightarrow> setElementValue e v s p = (Returned (), p))"
proof (intro conjI impI)
  assume a: "(tagName (els p e) = ''input'' \<or> tagName (els p e) = ''textarea'') \<and>
    \<not> (tagName (els p e) = ''input'' \<and> typeIs ''file'' (els p e) \<and> assigned v \<noteq> [])"
  then have t: "tagName (els p e) = ''input'' \<or> tagName (els p e) = ''textarea''"
    and r: "\<not> valueRaises p e (assigned v)"
    by (simp_all add: valueRaises_def isTag_def)
  show "fst (setElementValue e v s p) = Returned ()"
    by (simp add: setElementValue_input [OF t r])
  show "valueProp (els (snd (setElementValue e v s p)) e) = assigned v"
    by (simp add: setElementValue_input [OF t r])
  show "trace (snd (setElementValue e v s p))
        = trace p @ [SetValue e (assigned v), DispatchEvent e ''input''] @
          (if s then [] else [DispatchEvent e ''change''])"
    by (simp add: setElementValue_input [OF t r])
next
  assume "tagName (els p e) = ''input'' \<and> typeIs ''file'' (els p e) \<and> assigned v \<noteq> []"
  then have "valueRaises p e (assigned v)"
    by (simp add: valueRaises_def isTag_def)
  then show "setElementValue e v s p = (Threw (HostException ''InvalidStateError''), p)"
    by (simp add: setElementValue_raises invalidState_def)
next
  assume b: "tagName (els p e) \<noteq> ''input'' \<and> tagName (els p e) \<noteq> ''textarea'' \<and>
    hasAttribute p e ''contenteditable''"
  show "fst (setElementValue e v s p) = Returned ()"
    using b by (simp add: setElementValue_editable Let_def)
  show "textContent (els (snd (setElementValue e v s p)) e)
        = (case valueString v of None \<Rightarrow> [] | Some t \<Rightarrow> t)"
    using b by (simp add: setElementValue_editable Let_def)
  show "trace (snd (setElementValue e v s p))
        = trace p @ [SetTextContent e (case valueString v of None \<Rightarrow> [] | Some t \<Rightarrow> t),
                     DispatchEvent e ''input'']"
    using b by (simp add: setElementValue_editable Let_def)
next
  assume "tagName (els p e) \<noteq> ''input'' \<and> tagName (els p e) \<noteq> ''textarea'' \<and>
    \<not> hasAttribute p e ''contenteditable''"
  then show "setElementValue e v s p = (Returned (), p)"
    by (simp add: setElementValue_other)
qed

text \<open>On the notes page a value reaches the text input with both notifications, or with
  the \<^verbatim>\<open>input\<close> notification alone under silent application, and the editable region
  with the \<^verbatim>\<open>input\<close> notification alone. On the upload page a file name raises on the
  file input and leaves the page as it was, while the empty string is written with both
  notifications.\<close>

theorem setElementValue_notifications_witness:
  "trace (snd (setElementValue 0 (Some (JStr ''hi'')) False notesPage))
     = [SetValue 0 ''hi'', DispatchEvent 0 ''input'', DispatchEvent 0 ''change''] \<and>
   trace (snd (setElementValue 0 (Some (JStr ''hi'')) True notesPage))
     = [SetValue 0 ''hi'', DispatchEvent 0 ''input''] \<and>
   trace (snd (setElementValue 1 (Some (JBool True)) True notesPage))
     = [SetTextContent 1 ''true'', DispatchEvent 1 ''input''] \<and>
   setElementValue 1 (Some (JStr ''hi'')) False (notesPage\<lparr>els := (\<lambda>i. blankElement)\<rparr>)
     = (Returned (), notesPage\<lparr>els := (\<lambda>i. blankElement)\<rparr>) \<and>
   setElementValue 0 (Some (JStr ''cv.pdf'')) False uploadPage
     = (Threw (HostException ''InvalidStateError''), uploadPage) \<and>
   trace (snd (setElementValue 0 (Some (JStr [])) False uploadPage))
     = [SetValue 0 [], DispatchEvent 0 ''input'', DispatchEvent 0 ''change'']"
proof -
  have t0: "tagName (els notesPage 0) = ''input''" "\<not> typeIs ''file'' (els notesPage 0)"
    by code_simp+
  have t1: "tagName (els notesPage 1) \<noteq> ''input'' \<and> tagName (els notesPage 1) \<noteq> ''textarea'' \<and>
    hasAttribute notesPage 1 ''contenteditable''"
    by code_simp
  have t2: "tagName (els (notesPage\<lparr>els := (\<lambda>i. blankElement)\<rparr>) 1) \<noteq> ''input'' \<and>
    tagName (els (notesPage\<lparr>els := (\<lambda>i. blankElement)\<rparr>) 1) \<noteq> ''textarea'' \<and>
    \<not> hasAttribute (notesPage\<lparr>els := (\<lambda>i. blankElement)\<rparr>) 1 ''contenteditable''"
    by code_simp
  have u0: "tagName (els uploadPage 0) = ''input''" "typeIs ''file'' (els uploadPage 0)"
    by code_simp+
  have tr: "trace notesPage = []" "trace uploadPage = []"
    by (simp_all add: notesPage_def uploadPage_def pageOf_def)
  have v: "assigned (Some (JStr ''hi'')) = ''hi''" "valueString (Some (JBool True)) = Some ''true''"
    "assigned (Some (JStr ''cv.pdf'')) = ''cv.pdf''" "assigned (Some (JStr [])) = []"
    by (simp_all add: assigned_def valueString_def)
  have a: "trace (snd (setElementValue 0 (Some (JStr ''hi'')) False notesPage))
     = [SetValue 0 ''hi'', DispatchEvent 0 ''input'', DispatchEvent 0 ''change'']"
    using setElementValue_notifications [of notesPage 0 "Some (JStr ''hi'')" False] t0 tr v
    by simp
  have b: "trace (snd (setElementValue 0 (Some (JStr ''hi'')) True notesPage))
     = [SetValue 0 ''hi'', DispatchEvent 0 ''input'']"
    using setElementValue_notifications [of notesPage 0 "Some (JStr ''hi'')" True] t0 tr v
    by simp
  have c: "trace (snd (setElementValue 1 (Some (JBool True)) True notesPage))
     = [SetTextContent 1 ''true'', DispatchEvent 1 ''input'']"
    using setElementValue_notifications [of notesPage 1 "Some (JBool True)" True] t1 tr v
    by simp
  have d: "setElementValue 1 (Some (JStr ''hi'')) False (notesPage\<lparr>els := (\<lambda>i. blankElement)\<rparr>)
     = (Returned (), notesPage\<lparr>els := (\<lambda>i. blankElement)\<rparr>)"
    using setElementValue_notifications
      [of "notesPage\<lparr>els := (\<lambda>i. blankElement)\<rparr>" 1 "Some (JStr ''hi'')" False] t2
    by blast
  have e: "setElementValue 0 (Some (JStr ''cv.pdf'')) False uploadPage
     = (Threw (HostException ''InvalidStateError''), uploadPage)"
    using setElementValue_notifications [of uploadPage 0 "Some (JStr ''cv.pdf'')" False] u0 v
    by simp
  have f: "trace (snd (setElementValue 0 (Some (JStr [])) False uploadPage))
     = [SetValue 0 [], DispatchEvent 0 ''input'', DispatchEvent 0 ''change'']"
    using setElementValue_notifications [of uploadPage 0 "Some (JStr [])" False] u0 tr v
    by simp
  show ?thesis using a b c d e f by simp
qed

text \<open>
  C8 (as stated) fails for editable nodes: a value applied to the editable region of the
  notes page, with no silent application requested, emits the \<^verbatim>\<open>input\<close> notification
  and no \<^verbatim>\<open>change\<close> notification. It fails for a file input too: a file name applied to
  the file input of the upload page raises, and nothing is set or notified.
\<close>

theorem setElementValue_change_counterexample:
  "hasAttribute notesPage 1 ''contenteditable'' \<and>
   trace (snd (setElementValue 1 (Some (JStr ''hi'')) False notesPage))
     = [SetTextContent 1 ''hi'', DispatchEvent 1 ''input''] \<and>
   tagName (els uploadPage 0) = ''input'' \<and>
   fst (setElementValue 0 (Some (JStr ''cv.pdf'')) False uploadPage)
     = Threw (HostException ''InvalidStateError'') \<and>
   trace (snd (setElementValue 0 (Some (JStr ''cv.pdf'')) False uploadPage)) = []"
proof -
  have a: "hasAttribute notesPage 1 ''contenteditable''"
    by code_simp
  have b: "trace (snd (setElementValue 1 (Some (JStr ''hi'')) False notesPage))
     = [SetTextContent 1 ''hi'', DispatchEvent 1 ''input'']"
    by code_simp
  have c: "tagName (els uploadPage 0) = ''input''"
    by code_simp
  have d: "fst (setElementValue 0 (Some (JStr ''cv.pdf'')) False uploadPage)
     = Threw (HostException ''InvalidStateError'')"
    by code_simp
  have e: "trace (snd (setElementValue 0 (Some (JStr ''cv.pdf'')) False uploadPage)) = []"
    by code_simp
  show ?thesis using a b c d e by simp
qed

lemma nativeChecked_contract: "nativeChecked e s p = nativeContract e s p"
  by (simp add: nativeChecked_def nativeContract_def Let_def)

text \<open>
  C9. The branch of \<open>ensureChecked\<close> for a native control, with its duplicated
  conditional, equals the contract of the specification on every page: the checked flag
  is set, the \<^verbatim>\<open>input\<close> notification is always dispatched, and the \<^verbatim>\<open>change\<close>
  notification is dispatched if and only if suppression is not requested.
\<close>

theorem nativeChecked_meets_contract:
  "nativeChecked e s p = nativeContract e s p \<and>
   trace (nativeChecked e s p)
     = trace p @ [SetChecked e True, DispatchEvent e ''input''] @
       (if s then [] else [DispatchEvent e ''change''])"
  by (simp add: nativeChecked_def nativeContract_def setChecked_def dispatchEvent_def Let_def)

theorem nativeChecked_meets_contract_witness:
  "nativeChecked 0 False notesPage = nativeContract 0 False notesPage \<and>
   trace (nativeChecked 0 False notesPage)
     = [SetChecked 0 True, DispatchEvent 0 ''input'', DispatchEvent 0 ''change''] \<and>
   trace (nativeChecked 0 True notesPage) = [SetChecked 0 True, DispatchEvent 0 ''input'']"
proof -
  have tr: "trace notesPage = []"
    by (simp add: notesPage_def pageOf_def)
  have a: "nativeChecked 0 False notesPage = nativeContract 0 False notesPage"
    using nativeChecked_meets_contract [of 0 False notesPage] by (rule conjunct1)
  have b: "trace (nativeChecked 0 False notesPage)
     = [SetChecked 0 True, DispatchEvent 0 ''input'', DispatchEvent 0 ''change'']"
    using nativeChecked_meets_contract [of 0 False notesPage, THEN conjunct2] tr by simp
  have c: "trace (nativeChecked 0 True notesPage) = [SetChecked 0 True, DispatchEvent 0 ''input'']"
    using nativeChecked_meets_contract [of 0 True notesPage, THEN conjunct2] tr by simp
  show ?thesis using a b c by blast
qed


subsection \<open>Exclusive selection\<close>

lemma hasAttribute_setAttribute:
  "hasAttribute (setAttribute m a v q) n b = (hasAttribute q n b \<or> (n = m \<and> b = a))"
  by (auto simp add: hasAttribute_def setAttribute_def)

lemma hasAttribute_setChecked [simp]:
  "hasAttribute (setChecked m c q) n b = hasAttribute q n b"
  by (simp add: hasAttribute_def setChecked_def)

lemma hasAttribute_dispatchEvent [simp]:
  "hasAttribute (dispatchEvent m ty q) n b = hasAttribute q n b"
  by (simp add: hasAttribute_def dispatchEvent_def)

lemma role_uncheck [simp]:
  "hasAttribute (uncheck m q) n ''role'' = hasAttribute q n ''role''"
  by (simp add: uncheck_def hasAttribute_setAttribute)

lemma clearAction_uncheck [simp]: "clearAction (uncheck m q) n = clearAction q n"
  by (simp add: clearAction_def)

lemma trace_uncheck: "trace (uncheck m q) = trace q @ [clearAction q m]"
  by (simp add: uncheck_def clearAction_def setAttribute_def setChecked_def)

lemma selected_uncheck: "selected (uncheck m q) n = (n \<noteq> m \<and> selected q n)"
  by (auto simp add: uncheck_def selected_def hasAttribute_def getAttribute_def
      setAttribute_def setChecked_def)

lemma els_uncheck: "n \<noteq> m \<Longrightarrow> els (uncheck m q) n = els q n"
  by (simp add: uncheck_def setAttribute_def setChecked_def)

lemma trace_uncheckOthers:
  "trace (uncheckOthers e nodes q) = trace q @ map (clearAction q) (filter (\<lambda>n. n \<noteq> e) nodes)"
proof (induction nodes arbitrary: q)
  case Nil
  then show ?case by simp
next
  case (Cons node nodes)
  have same: "map (clearAction (uncheck node q)) (filter (\<lambda>n. n \<noteq> e) nodes)
      = map (clearAction q) (filter (\<lambda>n. n \<noteq> e) nodes)"
    by simp
  show ?case
    using Cons.IH [of "uncheck node q"] Cons.IH [of q] same
    by (simp add: trace_uncheck)
qed

lemma role_uncheckOthers [simp]:
  "hasAttribute (uncheckOthers e nodes q) n ''role'' = hasAttribute q n ''role''"
  by (induction nodes arbitrary: q) simp_all

lemma selected_uncheckOthers:
  "selected (uncheckOthers e nodes q) n = (selected q n \<and> (n = e \<or> n \<notin> set nodes))"
  by (induction nodes arbitrary: q) (auto simp add: selected_uncheck)

lemma els_uncheckOthers:
  "n = e \<or> n \<notin> set nodes \<Longrightarrow> els (uncheckOthers e nodes q) n = els q n"
  by (induction nodes arbitrary: q) (auto simp add: els_uncheck)

lemma trace_clearSiblings:
  "trace (clearSiblings e p) = trace p @ map (clearAction p) (exclusivitySet p e)"
  by (simp add: clearSiblings_def exclusivitySet_def trace_uncheckOthers split: option.split)

lemma role_clearSiblings [simp]:
  "hasAttribute (clearSiblings e p) n ''role'' = hasAttribute p n ''role''"
  by (simp add: clearSiblings_def split: option.split)

lemma selected_clearSiblings:
  "selected (clearSiblings e p) n = (selected p n \<and> n \<notin> set (exclusivitySet p e))"
  by (auto simp add: clearSiblings_def exclusivitySet_def selected_uncheckOthers split: option.split)

lemma els_clearSiblings:
  "n \<notin> set (exclusivitySet p e) \<Longrightarrow> els (clearSiblings e p) n = els p n"
  by (auto simp add: clearSiblings_def exclusivitySet_def els_uncheckOthers split: option.split)

lemma not_self_exclusive: "e \<notin> set (exclusivitySet p e)"
  by (simp add: exclusivitySet_def split: option.split)

lemma trace_markChecked: "trace (markChecked e s q) = trace q @ markActions q e s"
  by (simp add: markChecked_def markActions_def nativeChecked_def setAttribute_def
      setChecked_def dispatchEvent_def Let_def)

lemma selected_markChecked: "selected (markChecked e s q) n = (n = e \<or> selected q n)"
  by (auto simp add: markChecked_def nativeChecked_def selected_def hasAttribute_def
      getAttribute_def setAttribute_def setChecked_def dispatchEvent_def Let_def)

lemma els_markChecked: "n \<noteq> e \<Longrightarrow> els (markChecked e s q) n = els q n"
  by (simp add: markChecked_def nativeChecked_def setAttribute_def setChecked_def
      dispatchEvent_def Let_def)

lemma markActions_clearSiblings [simp]:
  "markActions (clearSiblings e p) e s = markActions p e s"
  by (simp add: markActions_def)

lemma ensureChecked_radio:
  "checkedStateRaises h e = None \<Longrightarrow> kindOf p e = ''radio'' \<or> isRadio \<Longrightarrow>
   ensureChecked h e isRadio s p = (Returned (), markChecked e s (clearSiblings e p))"
  by (auto simp add: ensureChecked_def Let_def)




section \<open>Properties of fillAnswers\<close>

lemma checkOption_raises:
  "selectBy (doc st) options v = Some c \<Longrightarrow> checkedStateRaises h (optEl c) = Some err \<Longrightarrow>
   checkOption h skipSubmit isRadio options v st
     = (Threw err,
        st\<lparr>doc := (if kindOf (doc st) (optEl c) = ''radio'' \<or> isRadio
                    then clearSiblings (optEl c) (doc st) else doc st)\<rparr>)"
  by (simp add: checkOption_def ensureChecked_def Let_def)

lemma fillChoices_Threw:
  "fst (fillChoice h idx skipSubmit kv st) = Threw err \<Longrightarrow>
   fst (fillChoices h idx skipSubmit (kv # kvs) st) = Threw err"
  by (cases "fillChoice h idx skipSubmit kv st") (auto split: result.splits)

lemma fillObject_Threw:
  "fst (fillChoices h idx skipSubmit (choiceEntries answers) st) = Threw err \<Longrightarrow>
   fst (fillObject h idx skipSubmit answers st) = Threw err"
  by (cases "fillChoices h idx skipSubmit (choiceEntries answers) st")
     (auto simp add: fillObject_def choiceEntries_def Let_def isObject_def
       split: option.splits json.splits result.splits if_splits)

lemma fillAnswers_Threw:
  "fst (fillObject h (fst (buildFieldIndex p)) skipSubmit (JObj kvs) (freshState p)) = Threw err \<Longrightarrow>
   fst (fillAnswers h (Some (JObj kvs)) skipSubmit p) = Threw err"
  by (cases "fillObject h (fst (buildFieldIndex p)) skipSubmit (JObj kvs) (freshState p)")
     (auto simp add: fillAnswers_def freshState_def Let_def split: result.splits)

lemma checkOptions_raises:
  "selectBy (doc st) options v = Some c \<Longrightarrow> checkedStateRaises h (optEl c) = Some err \<Longrightarrow>
   fst (checkOptions h skipSubmit options (v # vs) st) = Threw err \<and>
   filledCount (snd (checkOptions h skipSubmit options (v # vs) st)) = filledCount st \<and>
   touchedForms (snd (checkOptions h skipSubmit options (v # vs) st)) = touchedForms st \<and>
   checkOptions h skipSubmit options (v # vs) st = checkOptions h skipSubmit options [v] st"
  by (simp add: checkOption_raises)

lemma askAndFillChoices_Threw:
  "sendMessage h (CallAiChoicesForSelection strat) p = Inr response \<Longrightarrow>
   truthy (getProp response ''ok'') \<Longrightarrow>
   fst (fillAnswers h (Some (choicesOf response)) skipSubmit
          (snd (request h (CallAiChoicesForSelection strat) p))) = Threw err \<Longrightarrow>
   fst (askAndFillChoices h strat skipSubmit p) = Threw err"
  by (cases "fillAnswers h (Some (choicesOf response)) skipSubmit
          (snd (request h (CallAiChoicesForSelection strat) p))")
     (simp add: askAndFillChoices_def request_def split: result.splits)

lemma fillSelectionChoicesIfAny_Threw:
  "scanSelection h p = Some (Scan tags None) \<Longrightarrow>
   fst (askAndFillChoices h SelectionScoped skipSubmit (applyTags tags p)) = Threw err \<Longrightarrow>
   \<not> fst (fillSelectionChoicesIfAny h skipSubmit p)"
  by (simp add: fillSelectionChoicesIfAny_def catchAll_def Let_def)

lemma fillViewportChoicesIfAny_Threw:
  "collectSchema h p = Scan tags None \<Longrightarrow> viewportGroup h (applyTags tags p) \<Longrightarrow>
   fst (askAndFillChoices h ViewportScoped skipSubmit (applyTags tags p)) = Threw err \<Longrightarrow>
   \<not> fst (fillViewportChoicesIfAny h skipSubmit p)"
  by (simp add: fillViewportChoicesIfAny_def catchAll_def Let_def)

lemma captureAndFill_Threw:
  "collectSchema h p = Scan tags None \<Longrightarrow>
   sendMessage h CallAi (applyTags tags p) = Inr response \<Longrightarrow>
   truthy (getProp response ''ok'') \<Longrightarrow>
   fst (fillAnswers h (getProp response ''answers'') skipSubmit
          (snd (request h CallAi (applyTags tags p)))) = Threw err \<Longrightarrow>
   fst (captureAndFill h skipSubmit p) = Threw err"
  by (simp add: captureAndFill_def request_def Let_def)

lemma onMessage_fullPage_Threw:
  assumes "msgType m = ''captureAndFill''"
    and "\<not> fst (fillSelectionChoicesIfAny h (msgSkipSubmit m) p)"
    and "\<not> fst (fillViewportChoicesIfAny h (msgSkipSubmit m)
               (snd (fillSelectionChoicesIfAny h (msgSkipSubmit m) p)))"
    and "fst (fillFocusedFieldIfAny h (afterChoiceStrategies h (msgSkipSubmit m) p))
           = Returned False"
    and "fst (captureAndFill h (msgSkipSubmit m)
           (snd (fillFocusedFieldIfAny h (afterChoiceStrategies h (msgSkipSubmit m) p))))
           = Threw err"
  shows "fst (onMessage h m p) = Failure (errString err)"
proof -
  let ?p2 = "afterChoiceStrategies h (msgSkipSubmit m) p"
  obtain p3 where f: "fillFocusedFieldIfAny h ?p2 = (Returned False, p3)"
    using assms(4) by (cases "fillFocusedFieldIfAny h ?p2") simp
  obtain p4 where c: "captureAndFill h (msgSkipSubmit m) p3 = (Threw err, p4)"
    using assms(5) f by (cases "captureAndFill h (msgSkipSubmit m) p3") simp
  show ?thesis
    using assms(1-3) f c
    by (simp add: onMessage_def afterChoiceStrategies_def Let_def)
qed





subsection \<open>Resolution of scalar answers\<close>

lemma applyTo_None [simp]: "applyTo skipSubmit None v st = (Returned False, st)"
  by (simp add: applyTo_def)

lemma applyTo_Some:
  "applyTo skipSubmit (Some e) v st =
     (case setElementValue e v skipSubmit (doc st) of
        (Threw err, p1) \<Rightarrow> (Threw err, st\<lparr>doc := p1\<rparr>)
      | (Returned u, p1) \<Rightarrow>
          (Returned True,
           st\<lparr>filledCount := filledCount st + 1,
              touchedForms := addForm (closest p1 (isTag ''form'') e) (touchedForms st),
              doc := p1\<rparr>))"
  by (simp add: applyTo_def)

lemma applyTo_Some_outcome:
  "(\<exists>err st1. applyTo skipSubmit (Some e) v st = (Threw err, st1)) \<or>
   (\<exists>st1. applyTo skipSubmit (Some e) v st = (Returned True, st1))"
  by (cases "setElementValue e v skipSubmit (doc st)")
     (auto simp add: applyTo_Some split: result.splits)

lemma applied_Returned_False [simp]: "applied (Returned False, st) = (Returned (), st)"
  by (simp add: applied_def)

lemma attempt_miss:
  "(if k then el else None) = None \<Longrightarrow>
   (if k then applyTo skipSubmit el v st else (Returned False, st)) = (Returned False, st)"
  by (cases k) simp_all

lemma attempt_hit:
  assumes "(if k then el else None) = Some e"
  shows "(case (if k then applyTo skipSubmit el v st else (Returned False, st)) of
            (Threw err, st1) \<Rightarrow> (Threw err, st1)
          | (Returned True, st1) \<Rightarrow> (Returned (), st1)
          | (Returned False, st1) \<Rightarrow> K st1)
         = applied (applyTo skipSubmit (Some e) v st)"
proof -
  have k: "k" and el: "el = Some e"
    using assms by (simp_all split: if_splits)
  show ?thesis
    using applyTo_Some_outcome [of skipSubmit e v st] k el
    by (auto simp add: applied_def)
qed

lemma last_attempt:
  "applied (if k then applyTo skipSubmit el v st else (Returned False, st))
     = (case (if k then el else None) of
          None \<Rightarrow> (Returned (), st)
        | Some e \<Rightarrow> applied (applyTo skipSubmit (Some e) v st))"
  by (cases k; cases el) simp_all

lemma fillItem_falsy: "\<not> truthy (Some item) \<Longrightarrow> fillItem h idx skipSubmit item st = (Returned (), st)"
  by (simp add: fillItem_def)

lemma fillItem_truthy:
  assumes "truthy (Some item)"
  shows "fillItem h idx skipSubmit item st =
      (case (if truthy (orElse (getProp (Some item) ''id'') (getProp (Some item) ''fieldId''))
             then applyTo skipSubmit
                    (mapGet (byId idx)
                       (orElse (getProp (Some item) ''id'') (getProp (Some item) ''fieldId'')))
                    (itemValue item) st
             else (Returned False, st)) of
         (Threw err, st1) \<Rightarrow> (Threw err, st1)
       | (Returned True, st1) \<Rightarrow> (Returned (), st1)
       | (Returned False, st1) \<Rightarrow>
        (case (if truthy (getProp (Some item) ''selector'')
               then (case querySelectorHost h (doc st1)
                            (toStrV (getProp (Some item) ''selector'')) of
                       Inl err \<Rightarrow> (Threw err, st1)
                     | Inr el \<Rightarrow> applyTo skipSubmit el (itemValue item) st1)
               else (Returned False, st1)) of
           (Threw err, st2) \<Rightarrow> (Threw err, st2)
         | (Returned True, st2) \<Rightarrow> (Returned (), st2)
         | (Returned False, st2) \<Rightarrow>
          (case (if normalizeKeyV (getProp (Some item) ''label'') \<noteq> []
                 then applyTo skipSubmit
                        (byLabel idx (normalizeKeyV (getProp (Some item) ''label'')))
                        (itemValue item) st2
                 else (Returned False, st2)) of
             (Threw err, st3) \<Rightarrow> (Threw err, st3)
           | (Returned True, st3) \<Rightarrow> (Returned (), st3)
           | (Returned False, st3) \<Rightarrow>
            (case (if normalizeKeyV (getProp (Some item) ''name'') \<noteq> []
                   then applyTo skipSubmit
                          (byName idx (normalizeKeyV (getProp (Some item) ''name'')))
                          (itemValue item) st3
                   else (Returned False, st3)) of
               (Threw err, st4) \<Rightarrow> (Threw err, st4)
             | (Returned True, st4) \<Rightarrow> (Returned (), st4)
             | (Returned False, st4) \<Rightarrow>
                 applied
                   (if normalizeKeyV (orElse (getProp (Some item) ''htmlId'')
                                        (getProp (Some item) ''idAttr'')) \<noteq> []
                    then applyTo skipSubmit
                           (byHtmlId idx
                              (normalizeKeyV (orElse (getProp (Some item) ''htmlId'')
                                                (getProp (Some item) ''idAttr''))))
                           (itemValue item) st4
                    else (Returned False, st4))))))"
  unfolding fillItem_def itemValue_def Let_def
  by (simp only: assms not_True_eq_False if_False)

lemma fillItem_id_hit:
  assumes "truthy (Some item)"
    and "(if truthy (orElse (getProp (Some item) ''id'') (getProp (Some item) ''fieldId''))
          then mapGet (byId idx) (orElse (getProp (Some item) ''id'') (getProp (Some item) ''fieldId''))
          else None) = Some e"
  shows "fillItem h idx skipSubmit item st = applied (applyTo skipSubmit (Some e) (itemValue item) st)"
  unfolding fillItem_truthy [OF assms(1)]
  by (subst attempt_hit [OF assms(2)]) simp

lemma fillItem_firstHit:
  assumes "truthy (Some item)"
    and "(if truthy (getProp (Some item) ''selector'')
          then querySelectorHost h (doc st) (toStrV (getProp (Some item) ''selector''))
          else Inr None) = Inr el"
  shows "fillItem h idx skipSubmit item st =
    (case firstHit (itemCandidates idx el item) of
       None \<Rightarrow> (Returned (), st)
     | Some e \<Rightarrow> applied (applyTo skipSubmit (Some e) (itemValue item) st))"
proof -
  let ?it = "Some item"
  let ?v = "itemValue item"
  let ?idKey = "orElse (getProp ?it ''id'') (getProp ?it ''fieldId'')"
  let ?sel = "getProp ?it ''selector''"
  let ?kl = "normalizeKeyV (getProp ?it ''label'')"
  let ?kn = "normalizeKeyV (getProp ?it ''name'')"
  let ?kh = "normalizeKeyV (orElse (getProp ?it ''htmlId'') (getProp ?it ''idAttr''))"
  let ?c1 = "if truthy ?idKey then mapGet (byId idx) ?idKey else None"
  let ?c3 = "if ?kl \<noteq> [] then byLabel idx ?kl else None"
  let ?c4 = "if ?kn \<noteq> [] then byName idx ?kn else None"
  let ?c5 = "if ?kh \<noteq> [] then byHtmlId idx ?kh else None"
  let ?a2 = "if truthy ?sel
             then (case querySelectorHost h (doc st) (toStrV ?sel) of
                     Inl err \<Rightarrow> (Threw err, st)
                   | Inr el \<Rightarrow> applyTo skipSubmit el ?v st)
             else (Returned False, st)"
  have cands: "itemCandidates idx el item = [?c1, el, ?c3, ?c4, ?c5]"
    by (simp add: itemCandidates_def lookupIf_def Let_def)
  have a2: "?a2 = (if truthy ?sel then applyTo skipSubmit el ?v st else (Returned False, st))"
    using assms(2) by (simp split: if_splits)
  have el: "\<not> truthy ?sel \<Longrightarrow> el = None"
    using assms(2) by (simp split: if_splits)
  have unfold: "fillItem h idx skipSubmit item st =
      (case (if truthy ?idKey then applyTo skipSubmit (mapGet (byId idx) ?idKey) ?v st
             else (Returned False, st)) of
         (Threw err, st1) \<Rightarrow> (Threw err, st1)
       | (Returned True, st1) \<Rightarrow> (Returned (), st1)
       | (Returned False, st1) \<Rightarrow>
        (case (if truthy ?sel
               then (case querySelectorHost h (doc st1) (toStrV ?sel) of
                       Inl err \<Rightarrow> (Threw err, st1)
                     | Inr el \<Rightarrow> applyTo skipSubmit el ?v st1)
               else (Returned False, st1)) of
           (Threw err, st2) \<Rightarrow> (Threw err, st2)
         | (Returned True, st2) \<Rightarrow> (Returned (), st2)
         | (Returned False, st2) \<Rightarrow>
          (case (if ?kl \<noteq> [] then applyTo skipSubmit (byLabel idx ?kl) ?v st2
                 else (Returned False, st2)) of
             (Threw err, st3) \<Rightarrow> (Threw err, st3)
           | (Returned True, st3) \<Rightarrow> (Returned (), st3)
           | (Returned False, st3) \<Rightarrow>
            (case (if ?kn \<noteq> [] then applyTo skipSubmit (byName idx ?kn) ?v st3
                   else (Returned False, st3)) of
               (Threw err, st4) \<Rightarrow> (Threw err, st4)
             | (Returned True, st4) \<Rightarrow> (Returned (), st4)
             | (Returned False, st4) \<Rightarrow>
                 applied (if ?kh \<noteq> [] then applyTo skipSubmit (byHtmlId idx ?kh) ?v st4
                          else (Returned False, st4))))))"
    using fillItem_truthy [OF assms(1)] .
  show ?thesis
  proof (cases ?c1)
    case (Some e)
    show ?thesis
      unfolding unfold cands
      by (subst attempt_hit [OF Some]) (simp add: Some)
  next
    case c1: None
    show ?thesis
    proof (cases el)
      case (Some e)
      have hit: "(if truthy ?sel then el else None) = Some e"
        using Some el by auto
      show ?thesis
        unfolding unfold cands
        apply (simp only: attempt_miss [OF c1] prod.case result.case bool.case if_False a2)
        apply (subst attempt_hit [OF hit])
        apply (simp add: c1 Some)
        done
    next
      case c2: None
      have miss: "(if truthy ?sel then el else None) = None"
        using c2 by simp
      show ?thesis
      proof (cases ?c3)
        case (Some e)
        show ?thesis
          unfolding unfold cands
          apply (simp only: attempt_miss [OF c1] attempt_miss [OF miss] prod.case result.case
              bool.case if_False a2)
          apply (subst attempt_hit [OF Some])
          apply (simp add: c1 c2 Some)
          done
      next
        case c3: None
        show ?thesis
        proof (cases ?c4)
          case (Some e)
          show ?thesis
            unfolding unfold cands
            apply (simp only: attempt_miss [OF c1] attempt_miss [OF miss] attempt_miss [OF c3]
                prod.case result.case bool.case if_False a2)
            apply (subst attempt_hit [OF Some])
            apply (simp add: c1 c2 c3 Some)
            done
        next
          case c4: None
          show ?thesis
            unfolding unfold cands
            apply (simp only: attempt_miss [OF c1] attempt_miss [OF miss] attempt_miss [OF c3]
                attempt_miss [OF c4] prod.case result.case bool.case if_False a2 last_attempt)
            apply (simp add: c1 c2 c3 c4 split: option.splits)
            done
        qed
      qed
    qed
  qed
qed

lemma fillItem_selector_raises:
  "truthy (Some item) \<Longrightarrow>
   (if truthy (orElse (getProp (Some item) ''id'') (getProp (Some item) ''fieldId''))
    then mapGet (byId idx) (orElse (getProp (Some item) ''id'') (getProp (Some item) ''fieldId''))
    else None) = None \<Longrightarrow>
   truthy (getProp (Some item) ''selector'') \<Longrightarrow>
   querySelectorHost h (doc st) (toStrV (getProp (Some item) ''selector'')) = Inl err \<Longrightarrow>
   fillItem h idx skipSubmit item st = (Threw err, st)"
  by (cases "truthy (orElse (getProp (Some item) ''id'') (getProp (Some item) ''fieldId''))")
     (simp_all add: fillItem_def Let_def)

lemma firstHit_single [simp]: "firstHit [x] = x"
  by (cases x) simp_all

lemma resolveKey_firstHit: "resolveKey idx key = firstHit (keyCandidates idx key)"
  by (simp add: resolveKey_def keyCandidates_def split: option.split)

lemma fillField_firstHit:
  "fillField idx skipSubmit (key, v) st =
     (case firstHit (keyCandidates idx key) of
        None \<Rightarrow> (Returned (), st)
      | Some e \<Rightarrow> applied (applyTo skipSubmit (Some e) (Some v) st))"
  by (simp add: fillField_def resolveKey_firstHit split: option.split)

lemma applied_applyTo:
  "applied (applyTo skipSubmit (Some e) v st) =
     (case setElementValue e v skipSubmit (doc st) of
        (Threw err, p1) \<Rightarrow> (Threw err, st\<lparr>doc := p1\<rparr>)
      | (Returned u, p1) \<Rightarrow>
          (Returned (),
           st\<lparr>filledCount := filledCount st + 1,
              touchedForms := addForm (closest p1 (isTag ''form'') e) (touchedForms st),
              doc := p1\<rparr>))"
  by (cases "setElementValue e v skipSubmit (doc st)")
     (simp add: applied_def applyTo_Some split: result.splits)

lemma fillObject_entries:
  "fillObject h idx skipSubmit answers st =
     (case fillChoices h idx skipSubmit (choiceEntries answers) st of
        (Threw err, st1) \<Rightarrow> (Threw err, st1)
      | (Returned u, st1) \<Rightarrow> fillFields idx skipSubmit (fieldEntries answers) st1)"
  by (auto simp add: fillObject_def choiceEntries_def fieldEntries_def Let_def isObject_def
      split: option.splits json.splits result.splits prod.splits)

text \<open>
  C3 (as the code has it). A scalar answer is resolved by ordered candidates, the first hit
  winning. For an item of a list-shaped payload the candidates are: the identifier
  (\<^verbatim>\<open>id\<close> or \<^verbatim>\<open>fieldId\<close>), the element found by the explicit selector (if the item has
  one), the normalized label, the normalized name and the normalized htmlId (\<^verbatim>\<open>htmlId\<close>
  or \<^verbatim>\<open>idAttr\<close>); the placeholder index is not consulted. For a key of a \<^verbatim>\<open>fields\<close>
  object or of a flat map, which are the entries that the field loop of an object payload
  visits, the candidates are: the identifier, the normalized label, name, htmlId and
  placeholder; there is no selector. Where no candidate hits, the state is unchanged and
  nothing is raised. At the first hit the turn ends with what \<open>applyTo\<close> does there: the
  value is written, counted and the form recorded, or the exception of the value setter is
  raised and nothing is counted. A selector that the host rejects raises, when the
  identifier did not hit.
\<close>

theorem scalar_answer_resolution_order:
  "(truthy (Some item) \<and>
    (if truthy (getProp (Some item) ''selector'')
     then querySelectorHost h (doc st) (toStrV (getProp (Some item) ''selector''))
     else Inr None) = Inr el
      \<longrightarrow> fillItem h idx skipSubmit item st =
           (case firstHit (itemCandidates idx el item) of
              None \<Rightarrow> (Returned (), st)
            | Some e \<Rightarrow> applied (applyTo skipSubmit (Some e) (itemValue item) st))) \<and>
   (truthy (Some item) \<and> hd (itemCandidates idx None item) = None \<and>
    truthy (getProp (Some item) ''selector'') \<and>
    querySelectorHost h (doc st) (toStrV (getProp (Some item) ''selector'')) = Inl err
      \<longrightarrow> fillItem h idx skipSubmit item st = (Threw err, st)) \<and>
   fillField idx skipSubmit (key, v) st =
     (case firstHit (keyCandidates idx key) of
        None \<Rightarrow> (Returned (), st)
      | Some e \<Rightarrow> applied (applyTo skipSubmit (Some e) (Some v) st)) \<and>
   (fst (fillChoices h idx skipSubmit (choiceEntries answers) st) = Returned ()
      \<longrightarrow> fillObject h idx skipSubmit answers st =
           fillFields idx skipSubmit (fieldEntries answers)
             (snd (fillChoices h idx skipSubmit (choiceEntries answers) st))) \<and>
   applied (applyTo skipSubmit (Some e) w st) =
     (case setElementValue e w skipSubmit (doc st) of
        (Threw err, p1) \<Rightarrow> (Threw err, st\<lparr>doc := p1\<rparr>)
      | (Returned u, p1) \<Rightarrow>
          (Returned (),
           st\<lparr>filledCount := filledCount st + 1,
              touchedForms := addForm (closest p1 (isTag ''form'') e) (touchedForms st),
              doc := p1\<rparr>))"
proof (intro conjI impI)
  assume "truthy (Some item) \<and>
    (if truthy (getProp (Some item) ''selector'')
     then querySelectorHost h (doc st) (toStrV (getProp (Some item) ''selector''))
     else Inr None) = Inr el"
  then show "fillItem h idx skipSubmit item st =
           (case firstHit (itemCandidates idx el item) of
              None \<Rightarrow> (Returned (), st)
            | Some e \<Rightarrow> applied (applyTo skipSubmit (Some e) (itemValue item) st))"
    by (simp add: fillItem_firstHit)
next
  assume "truthy (Some item) \<and> hd (itemCandidates idx None item) = None \<and>
    truthy (getProp (Some item) ''selector'') \<and>
    querySelectorHost h (doc st) (toStrV (getProp (Some item) ''selector'')) = Inl err"
  then show "fillItem h idx skipSubmit item st = (Threw err, st)"
    by (intro fillItem_selector_raises) (simp_all add: itemCandidates_def Let_def)
next
  show "fillField idx skipSubmit (key, v) st =
     (case firstHit (keyCandidates idx key) of
        None \<Rightarrow> (Returned (), st)
      | Some e \<Rightarrow> applied (applyTo skipSubmit (Some e) (Some v) st))"
    by (rule fillField_firstHit)
next
  assume "fst (fillChoices h idx skipSubmit (choiceEntries answers) st) = Returned ()"
  then show "fillObject h idx skipSubmit answers st =
           fillFields idx skipSubmit (fieldEntries answers)
             (snd (fillChoices h idx skipSubmit (choiceEntries answers) st))"
    by (cases "fillChoices h idx skipSubmit (choiceEntries answers) st")
       (simp add: fillObject_entries)
next
  show "applied (applyTo skipSubmit (Some e) w st) =
     (case setElementValue e w skipSubmit (doc st) of
        (Threw err, p1) \<Rightarrow> (Threw err, st\<lparr>doc := p1\<rparr>)
      | (Returned u, p1) \<Rightarrow>
          (Returned (),
           st\<lparr>filledCount := filledCount st + 1,
              touchedForms := addForm (closest p1 (isTag ''form'') e) (touchedForms st),
              doc := p1\<rparr>))"
    by (rule applied_applyTo)
qed

text \<open>On the contact page a list item carrying the label fills the text input, a selector
  that the host rejects raises, and a flat map keyed by the placeholder fills the input.
  On the upload page a list item carrying the label of the file input hits it, and the
  turn ends with the exception of the value setter.\<close>

theorem scalar_answer_resolution_order_witness:
  "filledCount (snd (fillItem quietHost (fst (buildFieldIndex contactPage)) False mailByLabel
      (freshState contactPage))) = 1 \<and>
   fillItem strictHost (fst (buildFieldIndex contactPage)) False mailBySelector
      (freshState contactPage) = (Threw (HostException ''SyntaxError''), freshState contactPage) \<and>
   filledCount (snd (fillObject quietHost (fst (buildFieldIndex contactPage)) False mailFlat
      (freshState contactPage))) = 1 \<and>
   fst (fillItem quietHost (fst (buildFieldIndex uploadPage)) False resumeByLabel
      (freshState uploadPage)) = Threw (HostException ''InvalidStateError'') \<and>
   filledCount (snd (fillItem quietHost (fst (buildFieldIndex uploadPage)) False resumeByLabel
      (freshState uploadPage))) = 0"
proof -
  let ?idx = "fst (buildFieldIndex contactPage)"
  let ?st = "freshState contactPage"
  let ?idu = "fst (buildFieldIndex uploadPage)"
  let ?su = "freshState uploadPage"
  have h1: "truthy (Some mailByLabel) \<and>
    (if truthy (getProp (Some mailByLabel) ''selector'')
     then querySelectorHost quietHost (doc ?st) (toStrV (getProp (Some mailByLabel) ''selector''))
     else Inr None) = Inr None"
    by code_simp
  have hit1: "firstHit (itemCandidates ?idx None mailByLabel) = Some 0"
    by code_simp
  have h2: "truthy (Some mailBySelector) \<and> hd (itemCandidates ?idx None mailBySelector) = None \<and>
    truthy (getProp (Some mailBySelector) ''selector'') \<and>
    querySelectorHost strictHost (doc ?st) (toStrV (getProp (Some mailBySelector) ''selector''))
      = Inl (HostException ''SyntaxError'')"
    by code_simp
  have h4: "fst (fillChoices quietHost ?idx False (choiceEntries mailFlat) ?st) = Returned ()"
    by code_simp
  have fe: "fieldEntries mailFlat = [(''Mail'', JStr ''a@b.c'')]"
    by code_simp
  have ce: "choiceEntries mailFlat = []"
    by code_simp
  have hit3: "firstHit (keyCandidates ?idx ''Mail'') = Some 0"
    by code_simp
  have h5: "truthy (Some resumeByLabel) \<and>
    (if truthy (getProp (Some resumeByLabel) ''selector'')
     then querySelectorHost quietHost (doc ?su) (toStrV (getProp (Some resumeByLabel) ''selector''))
     else Inr None) = Inr None"
    by code_simp
  have hit5: "firstHit (itemCandidates ?idu None resumeByLabel) = Some 0"
    by code_simp
  have ap1: "filledCount (snd (applied (applyTo False (Some 0) (itemValue mailByLabel) ?st))) = 1"
    by code_simp
  have ap3: "filledCount (snd (applied (applyTo False (Some 0) (Some (JStr ''a@b.c'')) ?st))) = 1"
    "fst (applied (applyTo False (Some 0) (Some (JStr ''a@b.c'')) ?st)) = Returned ()"
    by code_simp+
  have ap5: "fst (applied (applyTo False (Some 0) (itemValue resumeByLabel) ?su))
      = Threw (HostException ''InvalidStateError'')"
    "filledCount (snd (applied (applyTo False (Some 0) (itemValue resumeByLabel) ?su))) = 0"
    by code_simp+
  have a: "fillItem quietHost ?idx False mailByLabel ?st =
      applied (applyTo False (Some 0) (itemValue mailByLabel) ?st)"
    using scalar_answer_resolution_order
      [where item = mailByLabel and h = quietHost and st = ?st and el = None and idx = ?idx
         and skipSubmit = False] h1 hit1
    by simp
  have b: "fillItem strictHost ?idx False mailBySelector ?st
      = (Threw (HostException ''SyntaxError''), ?st)"
    using scalar_answer_resolution_order
      [where item = mailBySelector and h = strictHost and st = ?st and idx = ?idx
         and skipSubmit = False and err = "HostException ''SyntaxError''"] h2
    by blast
  have c: "fillObject quietHost ?idx False mailFlat ?st =
      fillFields ?idx False (fieldEntries mailFlat)
         (snd (fillChoices quietHost ?idx False (choiceEntries mailFlat) ?st))"
    using scalar_answer_resolution_order
      [where h = quietHost and st = ?st and idx = ?idx and skipSubmit = False
         and answers = mailFlat] h4
    by blast
  have d: "fillField ?idx False (''Mail'', JStr ''a@b.c'') ?st
      = applied (applyTo False (Some 0) (Some (JStr ''a@b.c'')) ?st)"
    using scalar_answer_resolution_order
      [where h = quietHost and st = ?st and idx = ?idx and skipSubmit = False
         and key = "''Mail''" and v = "JStr ''a@b.c''"] hit3
    by simp
  have e: "fillItem quietHost ?idu False resumeByLabel ?su =
      applied (applyTo False (Some 0) (itemValue resumeByLabel) ?su)"
    using scalar_answer_resolution_order
      [where item = resumeByLabel and h = quietHost and st = ?su and el = None and idx = ?idu
         and skipSubmit = False] h5 hit5
    by simp
  have a': "filledCount (snd (fillItem quietHost ?idx False mailByLabel ?st)) = 1"
    unfolding a by (rule ap1)
  have c': "filledCount (snd (fillObject quietHost ?idx False mailFlat ?st)) = 1"
    unfolding c fe ce using d ap3
    by (cases "applied (applyTo False (Some 0) (Some (JStr ''a@b.c'')) ?st)") simp
  have e': "fst (fillItem quietHost ?idu False resumeByLabel ?su)
      = Threw (HostException ''InvalidStateError'')"
    "filledCount (snd (fillItem quietHost ?idu False resumeByLabel ?su)) = 0"
    unfolding e by (rule ap5)+
  show ?thesis
    using a' b c' e' by blast
qed

text \<open>
  C3 (as stated) fails for the list shape: the text input of the contact page is indexed
  under its normalized placeholder, and a flat map keyed by the placeholder fills it, but
  a list item that carries the placeholder fills nothing.
\<close>

theorem list_item_placeholder_counterexample:
  "byPlaceholder (fst (buildFieldIndex contactPage)) (normalizeKey ''Mail'') = Some 0 \<and>
   fst (fillAnswers quietHost (Some (JArr [mailByPlaceholder])) False contactPage)
     = Returned \<lparr>filled = 0, submitted = False\<rparr> \<and>
   fst (fillAnswers quietHost (Some mailFlat) False contactPage)
     = Returned \<lparr>filled = 1, submitted = False\<rparr>"
proof -
  have a: "byPlaceholder (fst (buildFieldIndex contactPage)) (normalizeKey ''Mail'') = Some 0"
    by code_simp
  have b: "fst (fillAnswers quietHost (Some (JArr [mailByPlaceholder])) False contactPage)
     = Returned \<lparr>filled = 0, submitted = False\<rparr>"
    by code_simp
  have c: "fst (fillAnswers quietHost (Some mailFlat) False contactPage)
     = Returned \<lparr>filled = 1, submitted = False\<rparr>"
    by code_simp
  show ?thesis using a b c by simp
qed


subsection \<open>Payloads that the index does not know\<close>

lemma fillItem_absent:
  assumes "itemAbsent idx item"
  shows "fillItem h idx skipSubmit item st = (Returned (), st)"
proof (cases "truthy (Some item)")
  case False
  then show ?thesis by (rule fillItem_falsy)
next
  case True
  have "(if truthy (getProp (Some item) ''selector'')
         then querySelectorHost h (doc st) (toStrV (getProp (Some item) ''selector''))
         else Inr None) = Inr None"
    using assms by (simp add: itemAbsent_def)
  from fillItem_firstHit [OF True this] show ?thesis
    using assms by (simp add: itemAbsent_def)
qed

lemma fillItems_absent:
  "list_all (itemAbsent idx) items \<Longrightarrow> fillItems h idx skipSubmit items st = (Returned (), st)"
  by (induction items) (simp_all add: fillItem_absent)

lemma fillChoice_absent:
  "groupAbsent idx (fst kv) \<Longrightarrow> fillChoice h idx skipSubmit kv st = (Returned (), st)"
  by (simp add: fillChoice_def groupAbsent_def)

lemma fillChoices_absent:
  "list_all (\<lambda>kv. groupAbsent idx (fst kv)) kvs \<Longrightarrow>
   fillChoices h idx skipSubmit kvs st = (Returned (), st)"
  by (induction kvs) (simp_all add: fillChoice_absent)

lemma fillFields_absent:
  "list_all (\<lambda>kv. keyAbsent idx (fst kv)) kvs \<Longrightarrow>
   fillFields idx skipSubmit kvs st = (Returned (), st)"
  by (induction kvs) (simp_all add: fillField_def resolveKey_firstHit keyAbsent_def)

lemma submitStep_untouched:
  "touchedForms st = [] \<Longrightarrow>
   submitStep h skipSubmit st = (\<lparr>filled = filledCount st, submitted = False\<rparr>, doc st)"
  by (simp add: submitStep_def Let_def)

lemma fillAnswers_falsy:
  "\<not> truthy answers \<Longrightarrow>
   fillAnswers h answers skipSubmit p = (Returned \<lparr>filled = 0, submitted = False\<rparr>, p)"
  by (simp add: fillAnswers_def)

lemma fillAnswers_unfold:
  "truthy answers \<Longrightarrow>
   fillAnswers h answers skipSubmit p =
     (case (case answers of
              Some (JArr items) \<Rightarrow> fillItems h (fst (buildFieldIndex p)) skipSubmit items (freshState p)
            | Some (JObj kvs) \<Rightarrow> fillObject h (fst (buildFieldIndex p)) skipSubmit (JObj kvs) (freshState p)
            | _ \<Rightarrow> (Returned (), freshState p)) of
        (Threw err, st) \<Rightarrow> (Threw err, doc st)
      | (Returned u, st) \<Rightarrow> (Returned (fst (submitStep h skipSubmit st)), snd (submitStep h skipSubmit st)))"
  by (simp add: fillAnswers_def freshState_def Let_def
      split: option.splits json.splits prod.splits result.splits)

lemma fillAnswers_absent:
  assumes "absentKeys (fst (buildFieldIndex p)) answers"
  shows "fillAnswers h answers skipSubmit p =
    (Returned \<lparr>filled = 0, submitted = False\<rparr>,
     if truthy answers then snd (buildFieldIndex p) else p)"
proof (cases "truthy answers")
  case False
  then show ?thesis by (simp add: fillAnswers_falsy)
next
  case True
  let ?idx = "fst (buildFieldIndex p)"
  have loops: "(case answers of
              Some (JArr items) \<Rightarrow> fillItems h ?idx skipSubmit items (freshState p)
            | Some (JObj kvs) \<Rightarrow> fillObject h ?idx skipSubmit (JObj kvs) (freshState p)
            | _ \<Rightarrow> (Returned (), freshState p)) = (Returned (), freshState p)"
    using assms
    by (auto simp add: absentKeys_def fillItems_absent fillObject_entries fillChoices_absent
        fillFields_absent split: option.splits json.splits)
  show ?thesis
    using True
    by (simp add: fillAnswers_unfold loops submitStep_untouched freshState_def)
qed

text \<open>
  C7. When no key of the payload is known to the field index built from the page (no
  list item, field key or group key finds an entry under any of the lookups that
  \<open>fillAnswers\<close> makes for it, and no list item brings a selector of its own),
  \<open>fillAnswers\<close> returns \<^verbatim>\<open>{filled: 0, submitted: false}\<close> and raises nothing, on every
  host and whatever the auto-submit setting; the page is as the index builder left it.
\<close>

theorem absent_keys_fill_nothing:
  "absentKeys (fst (buildFieldIndex p)) answers \<Longrightarrow>
   fillAnswers h answers skipSubmit p =
     (Returned \<lparr>filled = 0, submitted = False\<rparr>,
      if truthy answers then snd (buildFieldIndex p) else p)"
  by (rule fillAnswers_absent)

theorem absent_keys_fill_nothing_witness:
  "fst (fillAnswers (quietHost\<lparr>autoSubmit := True\<rparr>) (Some strangerPayload) False contactPage)
     = Returned \<lparr>filled = 0, submitted = False\<rparr> \<and>
   fst (fillAnswers strictHost (Some strangerList) False contactPage)
     = Returned \<lparr>filled = 0, submitted = False\<rparr>"
proof -
  have a: "absentKeys (fst (buildFieldIndex contactPage)) (Some strangerPayload)"
    by code_simp
  have b: "absentKeys (fst (buildFieldIndex contactPage)) (Some strangerList)"
    by code_simp
  show ?thesis
    using absent_keys_fill_nothing [OF a, of "quietHost\<lparr>autoSubmit := True\<rparr>" False]
      absent_keys_fill_nothing [OF b, of strictHost False]
    by simp
qed



section \<open>Properties of the capture orchestrator\<close>

lemma sent_append: "sent (p\<lparr>trace := trace p @ as\<rparr>)
    = sent p @ concat (map (\<lambda>a. case a of SendMessage r \<Rightarrow> [r] | _ \<Rightarrow> []) as)"
  by (simp add: sent_def)

lemma sent_els [simp]: "sent (p\<lparr>els := f\<rparr>) = sent p"
  by (simp add: sent_def)

lemma sent_setAttribute [simp]: "sent (setAttribute e a v p) = sent p"
  by (simp add: setAttribute_def sent_def)

lemma sent_setValue [simp]: "sent (setValue e v p) = sent p"
  by (simp add: setValue_def sent_def)

lemma sent_setTextContent [simp]: "sent (setTextContent e v p) = sent p"
  by (simp add: setTextContent_def sent_def)

lemma sent_setChecked [simp]: "sent (setChecked e b p) = sent p"
  by (simp add: setChecked_def sent_def)

lemma sent_dispatchEvent [simp]: "sent (dispatchEvent e ty p) = sent p"
  by (simp add: dispatchEvent_def sent_def)

lemma sent_setElementValue [simp]: "sent (snd (setElementValue e v s p)) = sent p"
  by (simp add: setElementValue_def Let_def)

lemma sent_uncheck [simp]: "sent (uncheck n p) = sent p"
  by (simp add: uncheck_def)

lemma sent_uncheckOthers [simp]: "sent (uncheckOthers e nodes p) = sent p"
  by (induction nodes arbitrary: p) simp_all

lemma sent_clearSiblings [simp]: "sent (clearSiblings e p) = sent p"
  by (simp add: clearSiblings_def split: option.split)

lemma sent_markChecked [simp]: "sent (markChecked e s p) = sent p"
  by (simp add: markChecked_def nativeChecked_def Let_def)

lemma sent_ensureChecked [simp]: "sent (snd (ensureChecked h e isRadio s p)) = sent p"
  by (simp add: ensureChecked_def Let_def split: option.split)

lemma sent_indexElement [simp]: "sent (snd (indexElement e st)) = sent (snd st)"
  by (simp add: indexElement_def labelElement_def Let_def)

lemma sent_indexElements [simp]: "sent (snd (indexElements es st)) = sent (snd st)"
  by (induction es arbitrary: st) simp_all

lemma sent_buildFieldIndex [simp]: "sent (snd (buildFieldIndex p)) = sent p"
  by (simp add: buildFieldIndex_def)

lemma sent_applyTo [simp]: "sent (doc (snd (applyTo s el v st))) = sent (doc st)"
proof (cases el)
  case None
  then show ?thesis by simp
next
  case (Some e)
  show ?thesis
    using Some sent_setElementValue [of e v s "doc st"]
    by (cases "setElementValue e v s (doc st)")
       (auto simp add: applyTo_Some split: result.splits)
qed

lemma snd_applied [simp]: "snd (applied r) = snd r"
  by (simp add: applied_def split: result.split)

lemma sent_fillItem [simp]: "sent (doc (snd (fillItem h idx s item st))) = sent (doc st)"
proof (cases "truthy (Some item)")
  case False
  then show ?thesis by (simp add: fillItem_falsy)
next
  case True
  let ?sel = "getProp (Some item) ''selector''"
  let ?idKey = "orElse (getProp (Some item) ''id'') (getProp (Some item) ''fieldId'')"
  let ?c1 = "if truthy ?idKey then mapGet (byId idx) ?idKey else None"
  let ?q = "if truthy ?sel then querySelectorHost h (doc st) (toStrV ?sel) else Inr None"
  show ?thesis
  proof (cases ?q)
    case (Inr el)
    from fillItem_firstHit [OF True Inr] show ?thesis
      by (simp split: option.split)
  next
    case (Inl err)
    then have q: "truthy ?sel" "querySelectorHost h (doc st) (toStrV ?sel) = Inl err"
      by (simp_all split: if_splits)
    show ?thesis
    proof (cases ?c1)
      case None
      from fillItem_selector_raises [OF True None q] show ?thesis
        by simp
    next
      case (Some e)
      from fillItem_id_hit [OF True Some] show ?thesis
        by simp
    qed
  qed
qed

lemma sent_fillItems [simp]: "sent (doc (snd (fillItems h idx s items st))) = sent (doc st)"
proof (induction items arbitrary: st)
  case Nil
  then show ?case by simp
next
  case (Cons item items)
  show ?case
    using Cons.IH [of "snd (fillItem h idx s item st)"] sent_fillItem [of h idx s item st]
    by (cases "fillItem h idx s item st") (auto split: result.splits)
qed

lemma sent_checkOption [simp]:
  "sent (doc (snd (checkOption h s isRadio options v st))) = sent (doc st)"
proof (cases "selectBy (doc st) options v")
  case None
  then show ?thesis by (simp add: checkOption_def)
next
  case (Some c)
  show ?thesis
    using Some sent_ensureChecked [of h "optEl c" isRadio s "doc st"]
    by (cases "ensureChecked h (optEl c) isRadio s (doc st)")
       (auto simp add: checkOption_def split: result.splits)
qed

lemma sent_checkOptions [simp]:
  "sent (doc (snd (checkOptions h s options vs st))) = sent (doc st)"
proof (induction vs arbitrary: st)
  case Nil
  then show ?case by simp
next
  case (Cons v vs)
  show ?case
    using Cons.IH [of "snd (checkOption h s False options v st)"]
      sent_checkOption [of h s False options v st]
    by (cases "checkOption h s False options v st") (auto split: result.splits)
qed

lemma sent_fillChoice [simp]: "sent (doc (snd (fillChoice h idx s kv st))) = sent (doc st)"
  by (simp add: fillChoice_def split: option.split json.split)

lemma sent_fillChoices [simp]: "sent (doc (snd (fillChoices h idx s kvs st))) = sent (doc st)"
proof (induction kvs arbitrary: st)
  case Nil
  then show ?case by simp
next
  case (Cons kv kvs)
  show ?case
    using Cons.IH [of "snd (fillChoice h idx s kv st)"] sent_fillChoice [of h idx s kv st]
    by (cases "fillChoice h idx s kv st") (auto split: result.splits)
qed

lemma sent_fillField [simp]: "sent (doc (snd (fillField idx s kv st))) = sent (doc st)"
  by (simp add: fillField_def split: option.split)

lemma sent_fillFields [simp]: "sent (doc (snd (fillFields idx s kvs st))) = sent (doc st)"
proof (induction kvs arbitrary: st)
  case Nil
  then show ?case by simp
next
  case (Cons kv kvs)
  show ?case
    using Cons.IH [of "snd (fillField idx s kv st)"] sent_fillField [of idx s kv st]
    by (cases "fillField idx s kv st") (auto split: result.splits)
qed

lemma sent_fillObject [simp]: "sent (doc (snd (fillObject h idx s answers st))) = sent (doc st)"
  using sent_fillChoices [of h idx s "choiceEntries answers" st]
    sent_fillFields [of idx s "fieldEntries answers" "snd (fillChoices h idx s (choiceEntries answers) st)"]
  by (cases "fillChoices h idx s (choiceEntries answers) st")
     (auto simp add: fillObject_entries split: result.splits)

lemma sent_submitStep [simp]: "sent (snd (submitStep h s st)) = sent (doc st)"
  by (simp add: submitStep_def Let_def sent_def split: list.split option.split)

lemma doc_freshState [simp]: "sent (doc (freshState p)) = sent p"
  by (simp add: freshState_def)

lemma sent_fillAnswers [simp]: "sent (snd (fillAnswers h answers s p)) = sent p"
proof (cases "truthy answers")
  case False
  then show ?thesis by (simp add: fillAnswers_falsy)
next
  case True
  let ?r = "case answers of
              Some (JArr items) \<Rightarrow> fillItems h (fst (buildFieldIndex p)) s items (freshState p)
            | Some (JObj kvs) \<Rightarrow> fillObject h (fst (buildFieldIndex p)) s (JObj kvs) (freshState p)
            | _ \<Rightarrow> (Returned (), freshState p)"
  have "sent (doc (snd ?r)) = sent p"
    by (simp split: option.split json.split)
  then show ?thesis
    using True by (cases ?r) (auto simp add: fillAnswers_unfold split: result.splits)
qed

lemma sent_fillAnswers_eq: "fillAnswers h answers s p = (r, q) \<Longrightarrow> sent q = sent p"
  using sent_fillAnswers [of h answers s p] by simp

lemma sent_applyTags [simp]: "sent (applyTags ts p) = sent p"
  by (induction ts arbitrary: p) simp_all

lemma sent_request [simp]: "sent (snd (request h r p)) = sent p @ [r]"
  by (simp add: request_def sent_def)

lemma sent_askAndFillChoices [simp]:
  "sent (snd (askAndFillChoices h strat s p)) = sent p @ [CallAiChoicesForSelection strat]"
proof -
  let ?r = "CallAiChoicesForSelection strat"
  have p1: "snd (request h ?r p) = p\<lparr>trace := trace p @ [SendMessage ?r]\<rparr>"
    by (simp add: request_def)
  have s1: "sent (p\<lparr>trace := trace p @ [SendMessage ?r]\<rparr>) = sent p @ [?r]"
    by (simp add: sent_def)
  show ?thesis
    using s1
    by (cases "sendMessage h ?r p")
       (auto simp add: askAndFillChoices_def request_def split: result.splits prod.splits
         dest: sent_fillAnswers_eq)
qed

lemma sent_catchAll [simp]: "snd (catchAll r) = snd r"
  by (simp add: catchAll_def split: result.split)

lemma sent_fillSelectionChoicesIfAny:
  "\<exists>a. sent (snd (fillSelectionChoicesIfAny h s p))
        = sent p @ asked a (CallAiChoicesForSelection SelectionScoped)"
proof (cases "scanSelection h p")
  case None
  then have "sent (snd (fillSelectionChoicesIfAny h s p))
      = sent p @ asked False (CallAiChoicesForSelection SelectionScoped)"
    by (simp add: fillSelectionChoicesIfAny_def asked_def)
  then show ?thesis by blast
next
  case (Some sc)
  obtain tags failure where sc: "sc = Scan tags failure"
    by (cases sc)
  show ?thesis
  proof (cases failure)
    case None
    then have "sent (snd (fillSelectionChoicesIfAny h s p))
        = sent p @ asked True (CallAiChoicesForSelection SelectionScoped)"
      using Some sc by (simp add: fillSelectionChoicesIfAny_def asked_def Let_def)
    then show ?thesis by blast
  next
    case (Some err)
    then have "sent (snd (fillSelectionChoicesIfAny h s p))
        = sent p @ asked False (CallAiChoicesForSelection SelectionScoped)"
      using \<open>scanSelection h p = Some sc\<close> sc
      by (simp add: fillSelectionChoicesIfAny_def asked_def Let_def)
    then show ?thesis by blast
  qed
qed

lemma sent_fillViewportChoicesIfAny:
  "\<exists>a. sent (snd (fillViewportChoicesIfAny h s p))
        = sent p @ asked a (CallAiChoicesForSelection ViewportScoped)"
proof -
  obtain tags failure where sc: "collectSchema h p = Scan tags failure"
    by (cases "collectSchema h p")
  show ?thesis
  proof (cases "failure = None \<and> viewportGroup h (applyTags tags p)")
    case True
    then have "sent (snd (fillViewportChoicesIfAny h s p))
        = sent p @ asked True (CallAiChoicesForSelection ViewportScoped)"
      using sc by (auto simp add: fillViewportChoicesIfAny_def asked_def Let_def)
    then show ?thesis by blast
  next
    case False
    then have "sent (snd (fillViewportChoicesIfAny h s p))
        = sent p @ asked False (CallAiChoicesForSelection ViewportScoped)"
      using sc by (auto simp add: fillViewportChoicesIfAny_def asked_def Let_def split: option.splits)
    then show ?thesis by blast
  qed
qed

lemma sent_fillFocusedFieldIfAny:
  "\<exists>a. sent (snd (fillFocusedFieldIfAny h p)) = sent p @ asked a CallAiFocused"
proof (cases "\<exists>t. activeElement p = Some t \<and> isTextLike p t")
  case False
  then have "sent (snd (fillFocusedFieldIfAny h p)) = sent p @ asked False CallAiFocused"
    by (auto simp add: fillFocusedFieldIfAny_def asked_def split: option.splits)
  then show ?thesis by blast
next
  case True
  then obtain t where t: "activeElement p = Some t" "isTextLike p t"
    by blast
  let ?p1 = "setAttribute t ''data-autoanswer-id'' (generateFieldId p t 0) p"
  let ?p2 = "?p1\<lparr>trace := trace ?p1 @ [SendMessage CallAiFocused]\<rparr>"
  have s2: "sent ?p2 = sent p @ [CallAiFocused]"
    using sent_setAttribute [of t "''data-autoanswer-id''" "generateFieldId p t 0" p]
    by (simp add: sent_def)
  have "sent (snd (fillFocusedFieldIfAny h p)) = sent p @ asked True CallAiFocused"
  proof (cases "sendMessage h CallAiFocused ?p1")
    case (Inl err)
    then show ?thesis
      using t s2 by (simp add: fillFocusedFieldIfAny_def asked_def Let_def request_def)
  next
    case (Inr resp)
    let ?v = "orElse (getProp resp ''answer'') (Some (JStr []))"
    show ?thesis
      using t s2 Inr sent_setElementValue [of t ?v False ?p2]
      by (cases "setElementValue t ?v False ?p2")
         (auto simp add: fillFocusedFieldIfAny_def asked_def Let_def request_def
           split: result.splits)
  qed
  then show ?thesis by blast
qed

lemma sent_captureAndFill:
  "\<exists>a. sent (snd (captureAndFill h s p)) = sent p @ asked a CallAi"
proof -
  obtain tags failure where sc: "collectSchema h p = Scan tags failure"
    by (cases "collectSchema h p")
  show ?thesis
  proof (cases failure)
    case (Some err)
    then have "sent (snd (captureAndFill h s p)) = sent p @ asked False CallAi"
      using sc by (simp add: captureAndFill_def asked_def Let_def)
    then show ?thesis by blast
  next
    case None
    let ?p1 = "applyTags tags p"
    have s1: "sent (?p1\<lparr>trace := trace ?p1 @ [SendMessage CallAi]\<rparr>) = sent p @ [CallAi]"
      using sent_applyTags [of tags p] by (simp add: sent_def)
    have "sent (snd (captureAndFill h s p)) = sent p @ asked True CallAi"
      using sc None s1
      by (cases "sendMessage h CallAi ?p1")
         (auto simp add: captureAndFill_def asked_def Let_def request_def
           dest: sent_fillAnswers_eq)
    then show ?thesis by blast
  qed
qed


lemma asked_False [simp]: "asked False r = []"
  by (simp add: asked_def)

lemma askAndFillChoices_rejection:
  "rejection (sendMessage h (CallAiChoicesForSelection strat) p)
     (case strat of SelectionScoped \<Rightarrow> ''AI selection request failed''
                  | ViewportScoped \<Rightarrow> ''AI viewport selection request failed'') = Some err \<Longrightarrow>
   askAndFillChoices h strat s p
     = (Threw err, snd (request h (CallAiChoicesForSelection strat) p))"
  by (cases "sendMessage h (CallAiChoicesForSelection strat) p")
     (auto simp add: rejection_def askAndFillChoices_def request_def split: if_splits)

lemma fillSelectionChoicesIfAny_rejection:
  assumes "scanSelection h p = Some (Scan tags None)"
    and "rejection (sendMessage h (CallAiChoicesForSelection SelectionScoped) (applyTags tags p))
           ''AI selection request failed'' = Some err"
  shows "\<not> fst (fillSelectionChoicesIfAny h s p) \<and>
    sent (snd (fillSelectionChoicesIfAny h s p))
      = sent p @ [CallAiChoicesForSelection SelectionScoped]"
  using assms(1) askAndFillChoices_rejection [of h SelectionScoped "applyTags tags p" err s] assms(2)
  by (simp add: fillSelectionChoicesIfAny_def catchAll_def Let_def)

lemma fillViewportChoicesIfAny_rejection:
  assumes "collectSchema h p = Scan tags None" and "viewportGroup h (applyTags tags p)"
    and "rejection (sendMessage h (CallAiChoicesForSelection ViewportScoped) (applyTags tags p))
           ''AI viewport selection request failed'' = Some err"
  shows "\<not> fst (fillViewportChoicesIfAny h s p) \<and>
    sent (snd (fillViewportChoicesIfAny h s p))
      = sent p @ [CallAiChoicesForSelection ViewportScoped]"
  using assms(1,2) askAndFillChoices_rejection [of h ViewportScoped "applyTags tags p" err s] assms(3)
  by (simp add: fillViewportChoicesIfAny_def catchAll_def Let_def)

lemma onMessage_selection_ok:
  "msgType m = ''captureAndFill'' \<Longrightarrow> fst (fillSelectionChoicesIfAny h (msgSkipSubmit m) p) \<Longrightarrow>
   onMessage h m p = (Response filledOne, snd (fillSelectionChoicesIfAny h (msgSkipSubmit m) p))"
  by (simp add: onMessage_def Let_def)

lemma onMessage_viewport_ok:
  "msgType m = ''captureAndFill'' \<Longrightarrow> \<not> fst (fillSelectionChoicesIfAny h (msgSkipSubmit m) p) \<Longrightarrow>
   fst (fillViewportChoicesIfAny h (msgSkipSubmit m)
          (snd (fillSelectionChoicesIfAny h (msgSkipSubmit m) p))) \<Longrightarrow>
   onMessage h m p = (Response filledOne, afterChoiceStrategies h (msgSkipSubmit m) p)"
  by (simp add: onMessage_def afterChoiceStrategies_def Let_def)

lemma onMessage_after_choices:
  assumes "msgType m = ''captureAndFill''"
    and "\<not> fst (fillSelectionChoicesIfAny h (msgSkipSubmit m) p)"
    and "\<not> fst (fillViewportChoicesIfAny h (msgSkipSubmit m)
               (snd (fillSelectionChoicesIfAny h (msgSkipSubmit m) p)))"
  shows "onMessage h m p =
    (case fillFocusedFieldIfAny h (afterChoiceStrategies h (msgSkipSubmit m) p) of
       (Threw err, p3) \<Rightarrow> (Failure (errString err), p3)
     | (Returned True, p3) \<Rightarrow> (Response filledOne, p3)
     | (Returned False, p3) \<Rightarrow>
         (case captureAndFill h (msgSkipSubmit m) p3 of
            (Threw err, p4) \<Rightarrow> (Failure (errString err), p4)
          | (Returned res, p4) \<Rightarrow> (Response res, p4)))"
  using assms by (simp add: onMessage_def afterChoiceStrategies_def Let_def)

lemma fillFocusedFieldIfAny_rejection:
  assumes "activeElement p = Some t" and "isTextLike p t"
    and "rejection (sendMessage h CallAiFocused (tagFocused p t)) ''AI focused request failed''
           = Some err"
  shows "fillFocusedFieldIfAny h p =
      (Threw err, (tagFocused p t)\<lparr>trace := trace (tagFocused p t) @ [SendMessage CallAiFocused]\<rparr>)"
  using assms
  by (cases "sendMessage h CallAiFocused (tagFocused p t)")
     (auto simp add: fillFocusedFieldIfAny_def request_def Let_def rejection_def tagFocused_def
       split: if_splits)

lemma sent_tagFocused [simp]: "sent (tagFocused p t) = sent p"
  by (simp add: tagFocused_def)

lemma sent_fillFocusedFieldIfAny_rejection:
  assumes "activeElement p = Some t" and "isTextLike p t"
    and "rejection (sendMessage h CallAiFocused (tagFocused p t)) ''AI focused request failed''
           = Some err"
  shows "fst (fillFocusedFieldIfAny h p) = Threw err \<and>
    sent (snd (fillFocusedFieldIfAny h p)) = sent p @ [CallAiFocused]"
proof -
  have "sent ((tagFocused p t)\<lparr>trace := trace (tagFocused p t) @ [SendMessage CallAiFocused]\<rparr>)
      = sent (tagFocused p t) @ [CallAiFocused]"
    by (simp add: sent_def)
  then show ?thesis
    using fillFocusedFieldIfAny_rejection [OF assms] by simp
qed

lemma onMessage_focus_aborts:
  assumes "msgType m = ''captureAndFill''"
    and "\<not> fst (fillSelectionChoicesIfAny h (msgSkipSubmit m) p)"
    and "\<not> fst (fillViewportChoicesIfAny h (msgSkipSubmit m)
               (snd (fillSelectionChoicesIfAny h (msgSkipSubmit m) p)))"
    and "activeElement (afterChoiceStrategies h (msgSkipSubmit m) p) = Some t"
    and "isTextLike (afterChoiceStrategies h (msgSkipSubmit m) p) t"
    and "rejection (sendMessage h CallAiFocused
           (tagFocused (afterChoiceStrategies h (msgSkipSubmit m) p) t))
           ''AI focused request failed'' = Some err"
  shows "fst (onMessage h m p) = Failure (errString err) \<and>
    sent (snd (onMessage h m p))
      = sent (afterChoiceStrategies h (msgSkipSubmit m) p) @ [CallAiFocused]"
proof -
  let ?p2 = "afterChoiceStrategies h (msgSkipSubmit m) p"
  let ?p3 = "(tagFocused ?p2 t)\<lparr>trace := trace (tagFocused ?p2 t) @ [SendMessage CallAiFocused]\<rparr>"
  have f: "fillFocusedFieldIfAny h ?p2 = (Threw err, ?p3)"
    using fillFocusedFieldIfAny_rejection [OF assms(4-6)] .
  have s: "sent ?p3 = sent ?p2 @ [CallAiFocused]"
    using sent_fillFocusedFieldIfAny_rejection [OF assms(4-6)] f by simp
  have "onMessage h m p = (Failure (errString err), ?p3)"
    using onMessage_after_choices [OF assms(1-3)] f by simp
  then show ?thesis
    using s by simp
qed

lemma fillFocusedFieldIfAny_unfocused:
  "\<forall>t. activeElement p = Some t \<longrightarrow> \<not> isTextLike p t \<Longrightarrow>
   fillFocusedFieldIfAny h p = (Returned False, p)"
  by (cases "activeElement p") (simp_all add: fillFocusedFieldIfAny_def)

lemma onMessage_sent:
  assumes "msgType m = ''captureAndFill''"
  shows "\<exists>a b c d. sent (snd (onMessage h m p)) =
      sent p @ asked a (CallAiChoicesForSelection SelectionScoped)
             @ asked b (CallAiChoicesForSelection ViewportScoped)
             @ asked c CallAiFocused @ asked d CallAi"
proof -
  let ?s = "msgSkipSubmit m"
  let ?S = "CallAiChoicesForSelection SelectionScoped"
  let ?V = "CallAiChoicesForSelection ViewportScoped"
  let ?p1 = "snd (fillSelectionChoicesIfAny h ?s p)"
  let ?p2 = "snd (fillViewportChoicesIfAny h ?s ?p1)"
  let ?p3 = "snd (fillFocusedFieldIfAny h ?p2)"
  let ?p4 = "snd (captureAndFill h ?s ?p3)"
  obtain a where a: "sent ?p1 = sent p @ asked a ?S"
    using sent_fillSelectionChoicesIfAny [of h ?s p] by blast
  obtain b where b: "sent ?p2 = sent ?p1 @ asked b ?V"
    using sent_fillViewportChoicesIfAny [of h ?s ?p1] by blast
  obtain c where c: "sent ?p3 = sent ?p2 @ asked c CallAiFocused"
    using sent_fillFocusedFieldIfAny [of h ?p2] by blast
  obtain d where d: "sent ?p4 = sent ?p3 @ asked d CallAi"
    using sent_captureAndFill [of h ?s ?p3] by blast
  have s1: "sent ?p1 = sent p @ asked a ?S @ asked False ?V @ asked False CallAiFocused
      @ asked False CallAi"
    using a by simp
  have s2: "sent ?p2 = sent p @ asked a ?S @ asked b ?V @ asked False CallAiFocused
      @ asked False CallAi"
    using a b by simp
  have s3: "sent ?p3 = sent p @ asked a ?S @ asked b ?V @ asked c CallAiFocused
      @ asked False CallAi"
    using a b c by simp
  have s4: "sent ?p4 = sent p @ asked a ?S @ asked b ?V @ asked c CallAiFocused @ asked d CallAi"
    using a b c d by simp
  have "snd (onMessage h m p) = ?p1 \<or> snd (onMessage h m p) = ?p2 \<or>
        snd (onMessage h m p) = ?p3 \<or> snd (onMessage h m p) = ?p4"
    using assms
    by (cases "fillFocusedFieldIfAny h ?p2"; cases "captureAndFill h ?s ?p3")
       (auto simp add: onMessage_def Let_def split: result.splits bool.splits)
  then show ?thesis
    using s1 s2 s3 s4 by metis
qed





end
